theory Spec2Isabelle
  imports Main "HOL-Library.Char_ord"
begin

section \<open>Library functions of Go used by the program\<close>

text \<open>
  Go strings are byte sequences; they are modelled as \<^typ>\<open>string\<close> (a list of
  \<^typ>\<open>char\<close>, one per byte).  Only the library behaviour the program relies on is
  modelled, and each function says which call of the source it stands for.
\<close>

definition digit_char :: "nat \<Rightarrow> char" where
  "digit_char d = ''0123456789'' ! d"

text \<open>
  \<^verbatim>\<open>strconv.FormatInt(n, 10)\<close> for a counter that is never negative.  In
  \<^verbatim>\<open>tfImport\<close> the counter \<^verbatim>\<open>n\<close> is an \<^verbatim>\<open>int64\<close> that
  is incremented at most once per element of a slice that exists in memory, so it stays
  below the length of that slice and cannot wrap around; it is a \<^typ>\<open>nat\<close> here.
\<close>

fun FormatInt :: "nat \<Rightarrow> string" where
  "FormatInt n =
     (if n < 10 then [digit_char n] else FormatInt (n div 10) @ [digit_char (n mod 10)])"

declare FormatInt.simps [simp del]

section \<open>Resource definitions and the import loop of \<^verbatim>\<open>tfImport\<close>\<close>

text \<open>
  \<^verbatim>\<open>tfimportables.ResourceDefinition\<close>: the struct is declared in package
  \<^verbatim>\<open>tfimportables\<close>; the program reads the four fields below.
\<close>

record ResourceDefinition =
  Provider :: string
  Name :: string
  Type :: string
  ImportID :: string

text \<open>
  The inner loop of \<^verbatim>\<open>tfImport\<close> (lines 127 to 136 of the command file):
  \<^verbatim>\<open>
  for _, v := range newResourceDefinitions {
      name := string(fmt.Sprintf("%s", v.Name))
      if string(resourceDefinition.Name) == name {
          newName := fmt.Sprintf("_%s_%s", name, strconv.FormatInt(n, 10))
          n++
          resourceName = fmt.Sprintf("%s.%s", resourceDefinition.Type, newName)
          newResourceDefinitions = append(newResourceDefinitions, resourceDefinition)
      }
  }\<close>
  A Go \<^verbatim>\<open>range\<close> evaluates the slice once, when the loop starts: the elements
  appended inside the loop are not visited by this loop, but they are part of the slice
  the next inner loop ranges over.  The second argument is what is left to visit, the
  state is \<^verbatim>\<open>(n, resourceName, newResourceDefinitions)\<close>.
\<close>

fun tfImport_inner ::
  "ResourceDefinition \<Rightarrow> ResourceDefinition list \<Rightarrow>
   nat \<times> string \<times> ResourceDefinition list \<Rightarrow> nat \<times> string \<times> ResourceDefinition list" where
  "tfImport_inner rd [] st = st"
| "tfImport_inner rd (v # vs) (n, resourceName, slice) =
     (if Name rd = Name v
      then tfImport_inner rd vs
             (n + 1, Type rd @ ''.'' @ (''_'' @ Name v @ ''_'' @ FormatInt n), slice @ [rd])
      else tfImport_inner rd vs (n, resourceName, slice))"

text \<open>
  The outer loop (lines 124 to 145).  It ranges over the slice as it was when the loop
  started (second argument: what is left of it), while \<^verbatim>\<open>newResourceDefinitions\<close>
  (last argument) grows.  \<open>run i\<close> tells whether the \<open>i\<close>-th
  \<^verbatim>\<open>terraform import\<close> subprocess succeeds; a failure is
  \<^verbatim>\<open>log.Fatal\<close>, which ends the process.  The result is the list of
  \<^verbatim>\<open>(resourceName, id)\<close> pairs the subprocess was started with, in order, and
  whether all of them succeeded.
\<close>

fun tfImport_loop ::
  "(nat \<Rightarrow> bool) \<Rightarrow> nat \<Rightarrow> ResourceDefinition list \<Rightarrow> ResourceDefinition list \<Rightarrow>
   (string \<times> string) list \<times> bool" where
  "tfImport_loop run i [] slice = ([], True)"
| "tfImport_loop run i (rd # rest) slice =
     (case tfImport_inner rd slice (0, Type rd @ ''.'' @ Name rd, slice) of
        (n, resourceName, slice') \<Rightarrow>
          if run i
          then (case tfImport_loop run (i + 1) rest slice' of
                  (cmds, ok) \<Rightarrow> ((resourceName, ImportID rd) # cmds, ok))
          else ([(resourceName, ImportID rd)], False))"

text \<open>
  The resource identities handed to \<^verbatim>\<open>terraform import\<close> for a batch when
  every import succeeds.
\<close>

definition tfImport_identities :: "ResourceDefinition list \<Rightarrow> string list" where
  "tfImport_identities defs = map fst (fst (tfImport_loop (\<lambda>i. True) 0 defs defs))"

definition app_x :: ResourceDefinition where
  "app_x = \<lparr>Provider = ''onelogin'', Name = ''x'', Type = ''app'', ImportID = ''1''\<rparr>"

subsection \<open>Auxiliary functions describing the loop\<close>

text \<open>
  \<open>cnt nm sl\<close> is the number of elements of the slice \<open>sl\<close> named \<open>nm\<close>;
  \<open>suffixes ds sl\<close> lists the numbers the loop appends to the names of \<open>ds\<close> when
  it starts with the slice \<open>sl\<close>, and \<open>identity_of d n\<close> is the identity built
  from a definition and such a number.  These are used to state and prove facts about
  \<open>tfImport_loop\<close>; the loop itself does not use them.
\<close>

definition cnt :: "string \<Rightarrow> ResourceDefinition list \<Rightarrow> nat" where
  "cnt nm sl = length (filter (\<lambda>v. Name v = nm) sl)"

fun suffixes :: "ResourceDefinition list \<Rightarrow> ResourceDefinition list \<Rightarrow> nat list" where
  "suffixes [] sl = []"
| "suffixes (d # ds) sl =
     (cnt (Name d) sl - 1) # suffixes ds (sl @ replicate (cnt (Name d) sl) d)"

definition identity_of :: "ResourceDefinition \<Rightarrow> nat \<Rightarrow> string" where
  "identity_of d n = Type d @ ''._'' @ Name d @ ''_'' @ FormatInt n"

section \<open>The scan of the existing \<^verbatim>\<open>main.tf\<close> and the filter\<close>

subsection \<open>The two regular expressions\<close>

text \<open>
  \<^verbatim>\<open>filterExistingDefinitions\<close> compiles two patterns with Go's \<^verbatim>\<open>regexp\<close>:
  \<^verbatim>\<open>
  "provider": (\w*provider\w*)\s(([a-zA-Z\_]*))\s\{
  "resource": (\w*resource\w*)\s([a-zA-Z\_\-]*)\s([a-zA-Z\_\-]*[0-9]*)\s?\{\<close>
  Both are sequences of literal bytes, single character classes, greedy stars of a
  class and one greedy optional class, inside capture groups.  An \<open>atom\<close> is one such
  element.
\<close>

datatype cls = Digit | Word | Space | ProviderName | ResourceName

datatype atom = Lit char | One cls | Star cls | Opt cls

definition in_range :: "char \<Rightarrow> char \<Rightarrow> char \<Rightarrow> bool" where
  "in_range lo hi c = (lo \<le> c \<and> c \<le> hi)"

definition is_letter :: "char \<Rightarrow> bool" where
  "is_letter c = (in_range CHR ''a'' CHR ''z'' c \<or> in_range CHR ''A'' CHR ''Z'' c)"

text \<open>
  \<^verbatim>\<open>[0-9]\<close>; \<^verbatim>\<open>\w\<close>, which is \<^verbatim>\<open>[0-9A-Za-z_]\<close> in Go; \<^verbatim>\<open>\s\<close>, which is
  \<^verbatim>\<open>[\t\n\f\r ]\<close>; \<^verbatim>\<open>[a-zA-Z\_]\<close>; and \<^verbatim>\<open>[a-zA-Z\_\-]\<close>.  Bytes are compared
  by their codes.
\<close>

fun in_class :: "cls \<Rightarrow> char \<Rightarrow> bool" where
  "in_class Digit c = in_range CHR ''0'' CHR ''9'' c"
| "in_class Word c = (in_range CHR ''0'' CHR ''9'' c \<or> is_letter c \<or> c = CHR ''_'')"
| "in_class Space c =
     (c = CHR 0x09 \<or> c = CHR 0x0A \<or> c = CHR 0x0C \<or> c = CHR 0x0D \<or> c = CHR '' '')"
| "in_class ProviderName c = (is_letter c \<or> c = CHR ''_'')"
| "in_class ResourceName c = (is_letter c \<or> c = CHR ''_'' \<or> c = CHR ''-'')"

text \<open>
  A pattern lists its atoms, each with the numbers of the capture groups it lies in, and
  says how many groups there are.  In the provider pattern the groups 2 and 3 are nested
  and hold the same atom.
\<close>

record regexp =
  atoms :: "(atom \<times> nat list) list"
  groups :: nat

definition provider_re :: regexp where
  "provider_re = \<lparr>atoms =
      [(Star Word, [1])] @ map (\<lambda>c. (Lit c, [1])) ''provider'' @ [(Star Word, [1]),
       (One Space, []),
       (Star ProviderName, [2, 3]),
       (One Space, []),
       (Lit CHR ''{'', [])],
     groups = 3\<rparr>"

definition resource_re :: regexp where
  "resource_re = \<lparr>atoms =
      [(Star Word, [1])] @ map (\<lambda>c. (Lit c, [1])) ''resource'' @ [(Star Word, [1]),
       (One Space, []),
       (Star ResourceName, [2]),
       (One Space, []),
       (Star ResourceName, [3]), (Star Digit, [3]),
       (Opt Space, []),
       (Lit CHR ''{'', [])],
     groups = 3\<rparr>"

subsection \<open>Matching\<close>

text \<open>
  Go's \<^verbatim>\<open>regexp\<close> returns the leftmost match and, among the matches starting there,
  the one a backtracking search finds first: a greedy star tries the longest run first
  and gives bytes back one at a time, an optional class is tried present before absent.
  \<open>first_some f n\<close> tries \<open>f n\<close>, \<open>f (n - 1)\<close>, ..., \<open>f 0\<close>.
\<close>

fun first_some :: "(nat \<Rightarrow> 'a option) \<Rightarrow> nat \<Rightarrow> 'a option" where
  "first_some f 0 = f 0"
| "first_some f (Suc n) = (case f (Suc n) of Some r \<Rightarrow> Some r | None \<Rightarrow> first_some f n)"

text \<open>
  \<open>match_atoms as s\<close> matches the atoms at the start of \<open>s\<close> and returns the piece of
  \<open>s\<close> each atom consumed.
\<close>

fun match_atoms :: "atom list \<Rightarrow> string \<Rightarrow> string list option" where
  "match_atoms [] s = Some []"
| "match_atoms (Lit c # as) s =
     (case s of [] \<Rightarrow> None
      | x # xs \<Rightarrow> if x = c then map_option ((#) [x]) (match_atoms as xs) else None)"
| "match_atoms (One cs # as) s =
     (case s of [] \<Rightarrow> None
      | x # xs \<Rightarrow> if in_class cs x then map_option ((#) [x]) (match_atoms as xs) else None)"
| "match_atoms (Opt cs # as) s =
     (case s of [] \<Rightarrow> map_option ((#) []) (match_atoms as [])
      | x # xs \<Rightarrow>
          if in_class cs x
          then (case match_atoms as xs of
                  Some r \<Rightarrow> Some ([x] # r)
                | None \<Rightarrow> map_option ((#) []) (match_atoms as (x # xs)))
          else map_option ((#) []) (match_atoms as (x # xs)))"
| "match_atoms (Star cs # as) s =
     first_some (\<lambda>j. map_option ((#) (take j s)) (match_atoms as (drop j s)))
       (length (takeWhile (\<lambda>x. in_class cs x) s))"

text \<open>The leftmost match: the first start position at which the atoms match.\<close>

fun find_match :: "atom list \<Rightarrow> string \<Rightarrow> string list option" where
  "find_match as [] = match_atoms as []"
| "find_match as (x # xs) =
     (case match_atoms as (x # xs) of Some r \<Rightarrow> Some r | None \<Rightarrow> find_match as xs)"

text \<open>
  \<^verbatim>\<open>r.FindStringSubmatch(t)\<close>: \<open>None\<close> for Go's \<^verbatim>\<open>nil\<close> (no match), else the
  whole match followed by the text of each group.
\<close>

definition group_text :: "(atom \<times> nat list) list \<Rightarrow> string list \<Rightarrow> nat \<Rightarrow> string" where
  "group_text as pieces g =
     concat (map snd (filter (\<lambda>(tags, piece). g \<in> set tags) (zip (map snd as) pieces)))"

definition FindStringSubmatch :: "regexp \<Rightarrow> string \<Rightarrow> string list option" where
  "FindStringSubmatch r t =
     (case find_match (map fst (atoms r)) t of
        None \<Rightarrow> None
      | Some pieces \<Rightarrow>
          Some (concat pieces # map (group_text (atoms r) pieces) [1 ..< Suc (groups r)]))"

subsection \<open>Reading the file line by line\<close>

text \<open>
  \<^verbatim>\<open>bufio.Scanner\<close> with its default split function \<^verbatim>\<open>ScanLines\<close>: the text is cut
  at every newline, a last line without newline counts when it is not empty, and one
  trailing carriage return is dropped from each line.  The scanner's buffer holds at most
  \<^verbatim>\<open>MaxScanTokenSize\<close> = 65536 bytes: at the first line of 65536 bytes or more
  \<^verbatim>\<open>Scan\<close> returns false and the loop ends (the program does not look at
  \<^verbatim>\<open>scanner.Err()\<close>).
\<close>

fun scanLines :: "string \<Rightarrow> string \<Rightarrow> string list" where
  "scanLines cur [] = (if cur = [] then [] else [cur])"
| "scanLines cur (c # cs) =
     (if c = CHR 0x0A then cur # scanLines [] cs else scanLines (cur @ [c]) cs)"

definition dropCR :: "string \<Rightarrow> string" where
  "dropCR l = (if l \<noteq> [] \<and> last l = CHR 0x0D then butlast l else l)"

definition Scanner_lines :: "string \<Rightarrow> string list" where
  "Scanner_lines text = map dropCR (takeWhile (\<lambda>l. length l < 65536) (scanLines [] text))"

subsection \<open>\<^verbatim>\<open>filterExistingDefinitions\<close>\<close>

text \<open>
  The first loop (lines 125 to 143) fills \<^verbatim>\<open>collection\<close>, a count per definition
  key for each of the two patterns.  The model keeps, for each pattern, the list of the
  keys found, one per matching line; the count of a key is its number of occurrences.
  \<^verbatim>\<open>subStr[len(subStr)-1]\<close> is the last group, \<^verbatim>\<open>subStr[len(subStr)-2]\<close> the one
  before.
\<close>

definition provider_key :: "string \<Rightarrow> string option" where
  "provider_key t =
     (case FindStringSubmatch provider_re t of
        None \<Rightarrow> None
      | Some subStr \<Rightarrow> Some (subStr ! (length subStr - 1)))"

definition resource_key :: "string \<Rightarrow> string option" where
  "resource_key t =
     (case FindStringSubmatch resource_re t of
        None \<Rightarrow> None
      | Some subStr \<Rightarrow>
          Some (subStr ! (length subStr - 2) @ ''.'' @ subStr ! (length subStr - 1)))"

definition provider_keys :: "string \<Rightarrow> string list" where
  "provider_keys text = List.map_filter provider_key (Scanner_lines text)"

definition resource_keys :: "string \<Rightarrow> string list" where
  "resource_keys text = List.map_filter resource_key (Scanner_lines text)"

text \<open>
  The second part (lines 145 to 162).  \<^verbatim>\<open>providerMap\<close> counts the provider of
  every incoming definition, before the test that keeps or drops the definition.  Go
  iterates a map in no specified order; the model lists the keys of \<^verbatim>\<open>providerMap\<close>
  without repetition in one fixed order, and the properties proved of the returned
  providers speak of the set of its elements and of the absence of repetitions only.
  The first argument is the text the reader \<^verbatim>\<open>f\<close> delivers.
\<close>

definition providerMap_keys :: "ResourceDefinition list \<Rightarrow> string list" where
  "providerMap_keys resourceDefinitions = remdups (map Provider resourceDefinitions)"

definition filterExistingDefinitions ::
  "string \<Rightarrow> ResourceDefinition list \<Rightarrow> ResourceDefinition list \<times> string list" where
  "filterExistingDefinitions f resourceDefinitions =
     (filter (\<lambda>rd. count_list (resource_keys f) (Type rd @ ''.'' @ Name rd) = 0)
        resourceDefinitions,
      filter (\<lambda>provider. count_list (provider_keys f) provider = 0)
        (providerMap_keys resourceDefinitions))"

text \<open>
  \<^verbatim>\<open>createHCLDefinitionsBuffer\<close> (lines 166 to 175): the empty declarations appended to
  \<^verbatim>\<open>main.tf\<close> before the imports.
\<close>

definition provider_block :: "string \<Rightarrow> string" where
  "provider_block p = ''provider '' @ p @ '' {'' @ [CHR 0x0A, CHR 0x09] @ ''alias = \"'' @ p @ ''\"''
     @ [CHR 0x0A] @ ''}'' @ [CHR 0x0A, CHR 0x0A]"

definition createHCLDefinitionsBuffer :: "ResourceDefinition list \<Rightarrow> string list \<Rightarrow> string" where
  "createHCLDefinitionsBuffer resourceDefinitions providerDefinitions =
     concat (map provider_block providerDefinitions) @
     concat (map (\<lambda>rd. ''resource '' @ Type rd @ '' '' @ Name rd @ '' {}'' @ [CHR 0x0A])
               resourceDefinitions)"

section \<open>Untyped state data and the formatting library\<close>

text \<open>
  Both \<^verbatim>\<open>convertToHCLLine\<close> functions marshal their input to JSON and unmarshal it
  into a \<^verbatim>\<open>map[string]interface{}\<close>; from then on a value is \<^verbatim>\<open>nil\<close>, a
  \<^verbatim>\<open>bool\<close>, a \<^verbatim>\<open>float64\<close>, a \<^verbatim>\<open>string\<close>, a \<^verbatim>\<open>[]interface{}\<close> or
  a \<^verbatim>\<open>map[string]interface{}\<close>.  The type \<open>'n\<close> stands for \<^verbatim>\<open>float64\<close>, whose
  arithmetic plays no role here.  A map is the list of its entries in the order in
  which the \<^verbatim>\<open>range\<close> loop visits them: Go leaves that order open, and a statement
  proved for every list holds for every order.  Marshalling such a value and
  unmarshalling it again gives the value back, so the round trip at the start of a
  recursive call is not written out.
\<close>

datatype 'n json =
    JNull
  | JBool bool
  | JNum 'n
  | JStr string
  | JArr "'n json list"
  | JObj "(string \<times> 'n json) list"

text \<open>
  \<^verbatim>\<open>reflect.TypeOf(v).Kind()\<close>.  For a \<^verbatim>\<open>nil\<close> interface value \<^verbatim>\<open>TypeOf\<close>
  returns a \<^verbatim>\<open>nil\<close> \<^verbatim>\<open>Type\<close>, and the call of \<^verbatim>\<open>Kind\<close> on it is a nil
  dereference: a run-time panic, \<open>None\<close> here.
\<close>

datatype kind = String | Float64 | Bool | Slice | Map

fun TypeOf_Kind :: "'n json \<Rightarrow> kind option" where
  "TypeOf_Kind JNull = None"
| "TypeOf_Kind (JBool b) = Some Bool"
| "TypeOf_Kind (JNum n) = Some Float64"
| "TypeOf_Kind (JStr s) = Some String"
| "TypeOf_Kind (JArr sl) = Some Slice"
| "TypeOf_Kind (JObj m) = Some Map"

datatype failure = Panic

text \<open>
  What the program takes from libraries whose code is not part of it.
  \<^item> \<open>ToSnakeCase\<close>: \<^verbatim>\<open>utils.ToSnakeCase\<close> of the OneLogin SDK.
  \<^item> \<open>QuoteUnicode\<close>, \<open>ToLowerUnicode\<close>: \<^verbatim>\<open>strconv.Quote\<close> and
    \<^verbatim>\<open>strings.ToLower\<close> on a string that has a byte outside ASCII (on ASCII strings
    both are defined below).
  \<^item> \<open>FormatV\<close>, \<open>Format0f\<close>: the verbs \<^verbatim>\<open>%v\<close> and \<^verbatim>\<open>%0.f\<close> of
    \<^verbatim>\<open>fmt\<close> on a \<^verbatim>\<open>float64\<close>.
  \<^item> \<open>FormatComposite\<close>: a verb of \<^verbatim>\<open>fmt\<close> (\<open>q\<close>, \<open>f\<close> or \<open>v\<close>) on a slice or
    a map.
\<close>

record 'n golib =
  ToSnakeCase :: "string \<Rightarrow> string"
  QuoteUnicode :: "string \<Rightarrow> string"
  ToLowerUnicode :: "string \<Rightarrow> string"
  FormatV :: "'n \<Rightarrow> string"
  Format0f :: "'n \<Rightarrow> string"
  FormatComposite :: "char \<Rightarrow> 'n json \<Rightarrow> string"

definition is_ascii :: "char \<Rightarrow> bool" where
  "is_ascii c = (c \<le> CHR 0x7F)"

text \<open>\<^verbatim>\<open>strings.ToLower\<close>: on an ASCII string the letters A to Z are mapped, byte by byte.\<close>

definition lower_byte :: "char \<Rightarrow> char" where
  "lower_byte c =
     (case map_of (zip ''ABCDEFGHIJKLMNOPQRSTUVWXYZ'' ''abcdefghijklmnopqrstuvwxyz'') c of
        Some l \<Rightarrow> l
      | None \<Rightarrow> c)"

definition ToLower :: "'n golib \<Rightarrow> string \<Rightarrow> string" where
  "ToLower lib s = (if list_all is_ascii s then map lower_byte s else ToLowerUnicode lib s)"

text \<open>
  \<^verbatim>\<open>strconv.Quote\<close>, which the verb \<^verbatim>\<open>%q\<close> applies to a string: in double
  quotes, with the double quote and the backslash escaped by a backslash, the other
  printable ASCII bytes as they are, the control bytes as \<^verbatim>\<open>\a \b \f \n \r \t \v\<close> or
  as \<^verbatim>\<open>\x\<close> and two hexadecimal digits.
\<close>

definition hex_digit :: "nat \<Rightarrow> char" where
  "hex_digit d = ''0123456789abcdef'' ! d"

definition quote_byte :: "char \<Rightarrow> string" where
  "quote_byte c =
     (if c = CHR 0x22 \<or> c = CHR 0x5C then [CHR 0x5C, c]
      else if CHR '' '' \<le> c \<and> c \<le> CHR ''~'' then [c]
      else if c = CHR 0x07 then [CHR 0x5C, CHR ''a'']
      else if c = CHR 0x08 then [CHR 0x5C, CHR ''b'']
      else if c = CHR 0x0C then [CHR 0x5C, CHR ''f'']
      else if c = CHR 0x0A then [CHR 0x5C, CHR ''n'']
      else if c = CHR 0x0D then [CHR 0x5C, CHR ''r'']
      else if c = CHR 0x09 then [CHR 0x5C, CHR ''t'']
      else if c = CHR 0x0B then [CHR 0x5C, CHR ''v'']
      else [CHR 0x5C, CHR ''x'', hex_digit (of_char c div 16), hex_digit (of_char c mod 16)])"

definition Quote :: "'n golib \<Rightarrow> string \<Rightarrow> string" where
  "Quote lib s =
     (if list_all is_ascii s then [CHR 0x22] @ concat (map quote_byte s) @ [CHR 0x22]
      else QuoteUnicode lib s)"

definition bool_text :: "bool \<Rightarrow> string" where
  "bool_text b = (if b then ''true'' else ''false'')"

text \<open>
  \<^verbatim>\<open>fmt.Sprintf\<close> with one verb and one argument.  A verb that does not fit the
  argument's type is not an error in Go: the output is \<^verbatim>\<open>%!verb(type=value)\<close>, and
  \<^verbatim>\<open>%!verb(<nil>)\<close> for \<^verbatim>\<open>nil\<close>.  The value is printed there as by
  \<^verbatim>\<open>%v\<close>, with the flags of the directive still in force: \<^verbatim>\<open>%0.f\<close> carries the
  precision 0, and \<^verbatim>\<open>%v\<close> cuts a string down to the precision, so a string under
  \<^verbatim>\<open>%0.f\<close> is printed as \<^verbatim>\<open>%!f(string=)\<close>.  A boolean is not cut.
\<close>

fun Sprintf_v :: "'n golib \<Rightarrow> 'n json \<Rightarrow> string" where
  "Sprintf_v lib JNull = ''<nil>''"
| "Sprintf_v lib (JBool b) = bool_text b"
| "Sprintf_v lib (JNum n) = FormatV lib n"
| "Sprintf_v lib (JStr s) = s"
| "Sprintf_v lib (JArr sl) = FormatComposite lib CHR ''v'' (JArr sl)"
| "Sprintf_v lib (JObj m) = FormatComposite lib CHR ''v'' (JObj m)"

fun Sprintf_q :: "'n golib \<Rightarrow> 'n json \<Rightarrow> string" where
  "Sprintf_q lib JNull = ''%!q(<nil>)''"
| "Sprintf_q lib (JBool b) = ''%!q(bool='' @ bool_text b @ '')''"
| "Sprintf_q lib (JNum n) = ''%!q(float64='' @ FormatV lib n @ '')''"
| "Sprintf_q lib (JStr s) = Quote lib s"
| "Sprintf_q lib (JArr sl) = FormatComposite lib CHR ''q'' (JArr sl)"
| "Sprintf_q lib (JObj m) = FormatComposite lib CHR ''q'' (JObj m)"

fun Sprintf_0f :: "'n golib \<Rightarrow> 'n json \<Rightarrow> string" where
  "Sprintf_0f lib JNull = ''%!f(<nil>)''"
| "Sprintf_0f lib (JBool b) = ''%!f(bool='' @ bool_text b @ '')''"
| "Sprintf_0f lib (JNum n) = Format0f lib n"
| "Sprintf_0f lib (JStr s) = ''%!f(string=)''"
| "Sprintf_0f lib (JArr sl) = FormatComposite lib CHR ''f'' (JArr sl)"
| "Sprintf_0f lib (JObj m) = FormatComposite lib CHR ''f'' (JObj m)"

text \<open>\<^verbatim>\<open>indent\<close>: \<open>level\<close> tab bytes.\<close>

definition indent :: "nat \<Rightarrow> string" where
  "indent level = replicate level (CHR 0x09)"

text \<open>
  Each loop that writes the elements of a list between brackets writes the separator
  after every element but the last.
\<close>

fun join :: "string \<Rightarrow> string list \<Rightarrow> string" where
  "join sep [] = []"
| "join sep [x] = x"
| "join sep (x # y # ys) = x @ sep @ join sep (y # ys)"

text \<open>
  A library for evaluating examples: numbers are integers written in decimal (what
  \<^verbatim>\<open>%0.f\<close> prints for an integral \<^verbatim>\<open>float64\<close>, and \<^verbatim>\<open>%v\<close> for one below a
  million), and \<open>ToSnakeCase\<close> is the identity, as it is on the keys of the examples,
  which are lower-case words.  The examples contain ASCII strings only and no slice or
  map under a scalar verb.
\<close>

definition example_lib :: "nat golib" where
  "example_lib = \<lparr>ToSnakeCase = (\<lambda>s. s), QuoteUnicode = (\<lambda>s. s), ToLowerUnicode = (\<lambda>s. s),
     FormatV = FormatInt, Format0f = FormatInt, FormatComposite = (\<lambda>verb v. [])\<rparr>"

section \<open>Package \<^verbatim>\<open>tfimport\<close>: from the state to HCL\<close>

text \<open>
  \<^verbatim>\<open>convertToHCLLine\<close> of package \<^verbatim>\<open>tfimport\<close> (lines 213 to 252).  The result is
  the text appended to the builder, or \<open>Inl Panic\<close> when the process dies in a run-time
  panic.  The four functions are the function itself, its loop over the entries of
  \<^verbatim>\<open>m\<close>, the body of that loop for one key and value, and the loop over the elements
  of a list of composite values.  When the input is not a JSON object,
  \<^verbatim>\<open>json.Unmarshal\<close> leaves \<^verbatim>\<open>m\<close> \<^verbatim>\<open>nil\<close> (its error is ignored) and the loop
  has nothing to visit.  This version has no test for \<^verbatim>\<open>nil\<close> and no case for maps:
  a map falls to \<^verbatim>\<open>default\<close>, which prints \<^verbatim>\<open>Unable to Determine Type\<close> on the
  standard output and appends nothing.
\<close>

fun tfimport_convertToHCLLine :: "'n golib \<Rightarrow> 'n json \<Rightarrow> nat \<Rightarrow> failure + string"
  and tfimport_range :: "'n golib \<Rightarrow> (string \<times> 'n json) list \<Rightarrow> nat \<Rightarrow> failure + string"
  and tfimport_switch :: "'n golib \<Rightarrow> string \<Rightarrow> 'n json \<Rightarrow> nat \<Rightarrow> failure + string"
  and tfimport_blocks :: "'n golib \<Rightarrow> string \<Rightarrow> 'n json list \<Rightarrow> nat \<Rightarrow> failure + string"
where
  "tfimport_convertToHCLLine lib (JObj m) indentLevel = tfimport_range lib m indentLevel"
| "tfimport_convertToHCLLine lib JNull indentLevel = Inr []"
| "tfimport_convertToHCLLine lib (JBool b) indentLevel = Inr []"
| "tfimport_convertToHCLLine lib (JNum n) indentLevel = Inr []"
| "tfimport_convertToHCLLine lib (JStr s) indentLevel = Inr []"
| "tfimport_convertToHCLLine lib (JArr sl) indentLevel = Inr []"
| "tfimport_range lib [] indentLevel = Inr []"
| "tfimport_range lib ((k, v) # m) indentLevel =
     (case tfimport_switch lib k v indentLevel of
        Inl e \<Rightarrow> Inl e
      | Inr line \<Rightarrow>
          (case tfimport_range lib m indentLevel of
             Inl e \<Rightarrow> Inl e
           | Inr rest \<Rightarrow> Inr (line @ rest)))"
| "tfimport_switch lib k JNull indentLevel = Inl Panic"
| "tfimport_switch lib k (JStr s) indentLevel =
     Inr (indent indentLevel @ ToSnakeCase lib k @ '' = '' @ Sprintf_q lib (JStr s) @ [CHR 0x0A])"
| "tfimport_switch lib k (JNum n) indentLevel =
     Inr (indent indentLevel @ ToSnakeCase lib k @ '' = '' @ Sprintf_v lib (JNum n) @ [CHR 0x0A])"
| "tfimport_switch lib k (JBool b) indentLevel =
     Inr (indent indentLevel @ ToSnakeCase lib k @ '' = '' @ Sprintf_v lib (JBool b) @ [CHR 0x0A])"
| "tfimport_switch lib k (JArr sl) indentLevel =
     (case sl of
        [] \<Rightarrow> Inr []
      | x # _ \<Rightarrow>
          (case TypeOf_Kind x of
             None \<Rightarrow> Inl Panic
           | Some Slice \<Rightarrow> tfimport_blocks lib k sl indentLevel
           | Some Map \<Rightarrow> tfimport_blocks lib k sl indentLevel
           | Some _ \<Rightarrow>
               Inr (indent indentLevel @ ToSnakeCase lib k @ '' = ['' @
                    join '','' (map (Sprintf_q lib) sl) @ '']'' @ [CHR 0x0A])))"
| "tfimport_switch lib k (JObj m) indentLevel = Inr []"
| "tfimport_blocks lib k [] indentLevel = Inr []"
| "tfimport_blocks lib k (x # sl) indentLevel =
     (case tfimport_convertToHCLLine lib x (indentLevel + 1) of
        Inl e \<Rightarrow> Inl e
      | Inr body \<Rightarrow>
          (case tfimport_blocks lib k sl indentLevel of
             Inl e \<Rightarrow> Inl e
           | Inr rest \<Rightarrow>
               Inr (ToLower lib ([CHR 0x0A] @ indent indentLevel @ ToSnakeCase lib k @ '' {'' @ [CHR 0x0A])
                    @ body @ indent indentLevel @ ''}'' @ [CHR 0x0A] @ rest)))"

text \<open>
  \<^verbatim>\<open>strings.Replace(s, old, new, 1)\<close> for a non-empty \<open>old\<close>: the first occurrence
  is replaced.
\<close>

fun Replace_first :: "string \<Rightarrow> string \<Rightarrow> string \<Rightarrow> string" where
  "Replace_first old new [] = []"
| "Replace_first old new (c # cs) =
     (if take (length old) (c # cs) = old then new @ drop (length old) (c # cs)
      else c # Replace_first old new cs)"

text \<open>
  The state read from \<^verbatim>\<open>terraform.tfstate\<close> (the structs \<^verbatim>\<open>State\<close>,
  \<^verbatim>\<open>StateResource\<close> and \<^verbatim>\<open>ResourceInstance\<close>).  The fields \<^verbatim>\<open>Name\<close>,
  \<^verbatim>\<open>Type\<close> and \<^verbatim>\<open>Provider\<close> of \<^verbatim>\<open>StateResource\<close> carry the prefix \<open>res\<close>
  to keep them apart from those of \<open>ResourceDefinition\<close>.
\<close>

record 'n ResourceInstance =
  Data :: "'n json"

record 'n StateResource =
  Content :: string
  resName :: string
  resType :: string
  resProvider :: string
  Instances :: "'n ResourceInstance list"

record 'n State =
  Resources :: "'n StateResource list"

text \<open>
  \<^verbatim>\<open>convertTFStateToHCL\<close> of package \<^verbatim>\<open>tfimport\<close> (lines 179 to 201).  The
  function \<^verbatim>\<open>sculpt\<close> it calls is defined in a file that is not modelled; it is a parameter:
  \<open>sculpt t d\<close> is the JSON form of what \<^verbatim>\<open>sculpt\<close> returns for the resource type
  \<open>t\<close> and the instance data \<open>d\<close>.  \<open>knownProviders\<close> lists the providers whose block
  has been written.
\<close>

fun tfimport_instances ::
  "'n golib \<Rightarrow> (string \<Rightarrow> 'n json \<Rightarrow> 'n json) \<Rightarrow> 'n StateResource \<Rightarrow> string \<Rightarrow>
   'n ResourceInstance list \<Rightarrow> failure + string" where
  "tfimport_instances lib sculpt resource providerDefinition [] = Inr []"
| "tfimport_instances lib sculpt resource providerDefinition (instance # rest) =
     (case tfimport_convertToHCLLine lib (sculpt (resType resource) (Data instance)) 1 of
        Inl e \<Rightarrow> Inl e
      | Inr body \<Rightarrow>
          (case tfimport_instances lib sculpt resource providerDefinition rest of
             Inl e \<Rightarrow> Inl e
           | Inr others \<Rightarrow>
               Inr (''resource '' @ resType resource @ '' '' @ resName resource @ '' {'' @ [CHR 0x0A]
                    @ [CHR 0x09] @ ''provider = '' @ providerDefinition @ [CHR 0x0A]
                    @ body @ ''}'' @ [CHR 0x0A, CHR 0x0A] @ others)))"

fun tfimport_resources ::
  "'n golib \<Rightarrow> (string \<Rightarrow> 'n json \<Rightarrow> 'n json) \<Rightarrow> string list \<Rightarrow> 'n StateResource list \<Rightarrow>
   failure + string" where
  "tfimport_resources lib sculpt knownProviders [] = Inr []"
| "tfimport_resources lib sculpt knownProviders (resource # rest) =
     (let providerDefinition = Replace_first ''provider.'' [] (resProvider resource) in
      case tfimport_instances lib sculpt resource providerDefinition (Instances resource) of
        Inl e \<Rightarrow> Inl e
      | Inr blocks \<Rightarrow>
          (case tfimport_resources lib sculpt (providerDefinition # knownProviders) rest of
             Inl e \<Rightarrow> Inl e
           | Inr others \<Rightarrow>
               Inr ((if providerDefinition \<in> set knownProviders then []
                     else provider_block providerDefinition)
                    @ blocks @ Content resource @ others)))"

definition convertTFStateToHCL ::
  "'n golib \<Rightarrow> (string \<Rightarrow> 'n json \<Rightarrow> 'n json) \<Rightarrow> 'n State \<Rightarrow> failure + string" where
  "convertTFStateToHCL lib sculpt state = tfimport_resources lib sculpt [] (Resources state)"

section \<open>Package \<^verbatim>\<open>stateparser\<close>: from the state to HCL\<close>

text \<open>
  \<^verbatim>\<open>convertToHCLLine\<close> of package \<^verbatim>\<open>stateparser\<close> (lines 319 to 375), with the
  same four parts as above.  This version skips a \<^verbatim>\<open>nil\<close> value, prints a list
  whose first element is a number or a boolean with the verb \<^verbatim>\<open>%0.f\<close>, separates
  list elements by a comma and a space, and has a case for maps.  The first element of
  a non-empty list is still handed to \<^verbatim>\<open>reflect.TypeOf(sl[0]).Kind()\<close> without a
  test for \<^verbatim>\<open>nil\<close>.
\<close>

fun stateparser_convertToHCLLine :: "'n golib \<Rightarrow> 'n json \<Rightarrow> nat \<Rightarrow> failure + string"
  and stateparser_range :: "'n golib \<Rightarrow> (string \<times> 'n json) list \<Rightarrow> nat \<Rightarrow> failure + string"
  and stateparser_switch :: "'n golib \<Rightarrow> string \<Rightarrow> 'n json \<Rightarrow> nat \<Rightarrow> failure + string"
  and stateparser_blocks :: "'n golib \<Rightarrow> string \<Rightarrow> 'n json list \<Rightarrow> nat \<Rightarrow> failure + string"
where
  "stateparser_convertToHCLLine lib (JObj m) indentLevel = stateparser_range lib m indentLevel"
| "stateparser_convertToHCLLine lib JNull indentLevel = Inr []"
| "stateparser_convertToHCLLine lib (JBool b) indentLevel = Inr []"
| "stateparser_convertToHCLLine lib (JNum n) indentLevel = Inr []"
| "stateparser_convertToHCLLine lib (JStr s) indentLevel = Inr []"
| "stateparser_convertToHCLLine lib (JArr sl) indentLevel = Inr []"
| "stateparser_range lib [] indentLevel = Inr []"
| "stateparser_range lib ((k, v) # m) indentLevel =
     (case stateparser_switch lib k v indentLevel of
        Inl e \<Rightarrow> Inl e
      | Inr line \<Rightarrow>
          (case stateparser_range lib m indentLevel of
             Inl e \<Rightarrow> Inl e
           | Inr rest \<Rightarrow> Inr (line @ rest)))"
| "stateparser_switch lib k JNull indentLevel = Inr []"
| "stateparser_switch lib k (JStr s) indentLevel =
     Inr (indent indentLevel @ ToSnakeCase lib k @ '' = '' @ Sprintf_q lib (JStr s) @ [CHR 0x0A])"
| "stateparser_switch lib k (JNum n) indentLevel =
     Inr (indent indentLevel @ ToSnakeCase lib k @ '' = '' @ Sprintf_v lib (JNum n) @ [CHR 0x0A])"
| "stateparser_switch lib k (JBool b) indentLevel =
     Inr (indent indentLevel @ ToSnakeCase lib k @ '' = '' @ Sprintf_v lib (JBool b) @ [CHR 0x0A])"
| "stateparser_switch lib k (JArr sl) indentLevel =
     (case sl of
        [] \<Rightarrow> Inr []
      | x # _ \<Rightarrow>
          (case TypeOf_Kind x of
             None \<Rightarrow> Inl Panic
           | Some Slice \<Rightarrow> stateparser_blocks lib k sl indentLevel
           | Some Map \<Rightarrow> stateparser_blocks lib k sl indentLevel
           | Some Float64 \<Rightarrow>
               Inr (indent indentLevel @ ToSnakeCase lib k @ '' = ['' @
                    join '', '' (map (Sprintf_0f lib) sl) @ '']'' @ [CHR 0x0A])
           | Some Bool \<Rightarrow>
               Inr (indent indentLevel @ ToSnakeCase lib k @ '' = ['' @
                    join '', '' (map (Sprintf_0f lib) sl) @ '']'' @ [CHR 0x0A])
           | Some String \<Rightarrow>
               Inr (indent indentLevel @ ToSnakeCase lib k @ '' = ['' @
                    join '', '' (map (Sprintf_q lib) sl) @ '']'' @ [CHR 0x0A])))"
| "stateparser_switch lib k (JObj m) indentLevel =
     (if length m > 0
      then (case stateparser_convertToHCLLine lib (JObj m) (indentLevel + 1) of
              Inl e \<Rightarrow> Inl e
            | Inr body \<Rightarrow>
                Inr (ToLower lib ([CHR 0x0A] @ indent indentLevel @ ToSnakeCase lib k @ '' = {'' @ [CHR 0x0A])
                     @ body @ indent indentLevel @ ''}'' @ [CHR 0x0A]))
      else Inr [])"
| "stateparser_blocks lib k [] indentLevel = Inr []"
| "stateparser_blocks lib k (x # sl) indentLevel =
     (case stateparser_convertToHCLLine lib x (indentLevel + 1) of
        Inl e \<Rightarrow> Inl e
      | Inr body \<Rightarrow>
          (case stateparser_blocks lib k sl indentLevel of
             Inl e \<Rightarrow> Inl e
           | Inr rest \<Rightarrow>
               Inr (ToLower lib ([CHR 0x0A] @ indent indentLevel @ ToSnakeCase lib k @ '' {'' @ [CHR 0x0A])
                    @ body @ indent indentLevel @ ''}'' @ [CHR 0x0A] @ rest)))"

text \<open>
  \<^verbatim>\<open>ConvertTFStateToHCL\<close> of package \<^verbatim>\<open>stateparser\<close> (lines 286 to 307).  The
  shape of a resource type comes from package \<^verbatim>\<open>tfimportables\<close>, which is not
  modelled; it is a parameter: \<open>HCLShape t d\<close> is the JSON form of the shape of
  type \<open>t\<close> after the instance data \<open>d\<close> was unmarshalled into it, or a failure when
  there is no importable for \<open>t\<close>.
\<close>

definition stateparser_header :: string where
  "stateparser_header =
     ''terraform {'' @ [CHR 0x0A, CHR 0x09] @ ''required_providers {'' @ [CHR 0x0A, CHR 0x09, CHR 0x09]
     @ ''onelogin = {'' @ [CHR 0x0A, CHR 0x09, CHR 0x09, CHR 0x09]
     @ ''source = '' @ [CHR 0x22] @ ''onelogin/onelogin'' @ [CHR 0x22]
     @ [CHR 0x0A, CHR 0x09, CHR 0x09, CHR 0x09] @ ''}'' @ [CHR 0x0A, CHR 0x09, CHR 0x09] @ ''}''
     @ [CHR 0x0A, CHR 0x09] @ ''}'' @ [CHR 0x0A, CHR 0x0A]
     @ provider_block ''onelogin''"

fun stateparser_instances ::
  "'n golib \<Rightarrow> (string \<Rightarrow> 'n json \<Rightarrow> failure + 'n json) \<Rightarrow> 'n StateResource \<Rightarrow>
   'n ResourceInstance list \<Rightarrow> failure + string" where
  "stateparser_instances lib HCLShape resource [] = Inr []"
| "stateparser_instances lib HCLShape resource (instance # rest) =
     (case HCLShape (resType resource) (Data instance) of
        Inl e \<Rightarrow> Inl e
      | Inr hclShape \<Rightarrow>
          (case stateparser_convertToHCLLine lib hclShape 1 of
             Inl e \<Rightarrow> Inl e
           | Inr body \<Rightarrow>
               (case stateparser_instances lib HCLShape resource rest of
                  Inl e \<Rightarrow> Inl e
                | Inr others \<Rightarrow>
                    Inr (''resource '' @ resType resource @ '' '' @ resName resource @ '' {''
                         @ [CHR 0x0A] @ body @ ''}'' @ [CHR 0x0A, CHR 0x0A] @ others))))"

fun stateparser_resources ::
  "'n golib \<Rightarrow> (string \<Rightarrow> 'n json \<Rightarrow> failure + 'n json) \<Rightarrow> 'n StateResource list \<Rightarrow>
   failure + string" where
  "stateparser_resources lib HCLShape [] = Inr []"
| "stateparser_resources lib HCLShape (resource # rest) =
     (case stateparser_instances lib HCLShape resource (Instances resource) of
        Inl e \<Rightarrow> Inl e
      | Inr blocks \<Rightarrow>
          (case stateparser_resources lib HCLShape rest of
             Inl e \<Rightarrow> Inl e
           | Inr others \<Rightarrow> Inr (blocks @ Content resource @ others)))"

definition ConvertTFStateToHCL ::
  "'n golib \<Rightarrow> (string \<Rightarrow> 'n json \<Rightarrow> failure + 'n json) \<Rightarrow> 'n State \<Rightarrow> failure + string" where
  "ConvertTFStateToHCL lib HCLShape state =
     (case stateparser_resources lib HCLShape (Resources state) of
        Inl e \<Rightarrow> Inl e
      | Inr body \<Rightarrow> Inr (stateparser_header @ body))"

text \<open>
  One nested block as the loop over a list of composite values writes it: the header
  line in lower case, the body, the closing brace.  Used to state properties; both
  \<open>tfimport_blocks\<close> and \<open>stateparser_blocks\<close> write these pieces themselves.
\<close>

definition block_of :: "'n golib \<Rightarrow> string \<Rightarrow> nat \<Rightarrow> string \<Rightarrow> string" where
  "block_of lib k indentLevel body =
     ToLower lib ([CHR 0x0A] @ indent indentLevel @ ToSnakeCase lib k @ '' {'' @ [CHR 0x0A])
     @ body @ indent indentLevel @ ''}'' @ [CHR 0x0A]"

text \<open>
  A state of one resource with one instance and a trailing content, for evaluating
  examples, and the parameters standing for \<^verbatim>\<open>sculpt\<close> and the shapes there: both
  leave the instance data as it is.
\<close>

definition note_resource :: "nat StateResource" where
  "note_resource =
     \<lparr>Content = ''# kept as it is'' @ [CHR 0x0A], resName = ''x'', resType = ''app'',
      resProvider = ''provider.onelogin'',
      Instances = [\<lparr>Data = JObj [(''name'', JStr ''x'')]\<rparr>]\<rparr>"

definition note_state :: "nat State" where
  "note_state = \<lparr>Resources = [note_resource]\<rparr>"

definition plain_sculpt :: "string \<Rightarrow> nat json \<Rightarrow> nat json" where
  "plain_sculpt t d = d"

definition plain_shape :: "string \<Rightarrow> nat json \<Rightarrow> failure + nat json" where
  "plain_shape t d = Inr d"

text \<open>
  \<open>providerDefinition_of r\<close> is the provider name \<^verbatim>\<open>convertTFStateToHCL\<close> computes
  for a resource (line 186).
\<close>

definition providerDefinition_of :: "'n StateResource \<Rightarrow> string" where
  "providerDefinition_of r = Replace_first ''provider.'' [] (resProvider r)"

section \<open>The two reconciliation procedures\<close>

text \<open>
  \<^verbatim>\<open>tfImport\<close> (command file, lines 78 to 173) and \<^verbatim>\<open>ImportTFStateFromRemote\<close>
  (lines 23 to 98) talk to the file system, the terminal and the \<^verbatim>\<open>terraform\<close>
  binary.  A \<open>world\<close> fixes what these answer during one run; the procedure is then a
  function from the world to the list of the events of the run, in order.  The last
  event tells how the run ends.
\<close>

datatype event =
    Opened
  | Closed
  | Wrote string
  | Seeked
  | TerraformInit
  | TerraformImport string string
  | Exit0
  | Fatal
  | Panicked
  | Returned

datatype 'a loaded = ReadError | DecodeError | Loaded 'a

text \<open>
  \<^item> \<open>open_fails\<close>: \<^verbatim>\<open>os.OpenFile\<close> of \<^verbatim>\<open>main.tf\<close> returns an error;
  \<^item> \<open>main_tf\<close>: the contents of \<^verbatim>\<open>main.tf\<close> when the run starts;
  \<^item> \<open>remote\<close>: what \<^verbatim>\<open>ImportFromRemote\<close> returns;
  \<^item> \<open>answer\<close>: the line read from the standard input;
  \<^item> \<open>header_write_fails\<close>, \<open>final_write_fails\<close>: the first and the last write to
    \<^verbatim>\<open>main.tf\<close> return an error;
  \<^item> \<open>init_fails\<close>: \<^verbatim>\<open>terraform init\<close> fails;
  \<^item> \<open>import_ok i\<close>: the \<open>i\<close>-th \<^verbatim>\<open>terraform import\<close> succeeds;
  \<^item> \<open>tfstate\<close>: the outcome of reading and decoding \<^verbatim>\<open>terraform.tfstate\<close>.

  An error of \<^verbatim>\<open>Close\<close> itself changes the messages printed, not the events.
\<close>

record 'n world =
  open_fails :: bool
  main_tf :: string
  remote :: "ResourceDefinition list"
  answer :: string
  header_write_fails :: bool
  init_fails :: bool
  import_ok :: "nat \<Rightarrow> bool"
  tfstate :: "'n State loaded"
  final_write_fails :: bool

definition declined :: "'n golib \<Rightarrow> string \<Rightarrow> bool" where
  "declined lib input = (ToLower lib input \<noteq> ''y'' \<and> ToLower lib input \<noteq> ''yes'')"

text \<open>
  The end of both procedures: seek to the start, write the buffer, close.  When the
  write fails the error branch closes the file and the statement after it closes it
  again.
\<close>

definition final_write :: "'n world \<Rightarrow> string \<Rightarrow> event list" where
  "final_write w buffer =
     Seeked # (if final_write_fails w then [Closed, Closed, Returned]
               else [Wrote buffer, Closed, Returned])"

text \<open>
  \<^verbatim>\<open>tfImport\<close>.  It calls \<^verbatim>\<open>tfimport.FilterExistingDefinitions\<close> and
  \<^verbatim>\<open>tfimport.WriteHCLDefinitionHeaders\<close>, exported functions that the import file
  holds under their earlier names \<^verbatim>\<open>filterExistingDefinitions\<close> and
  \<^verbatim>\<open>createHCLDefinitionsBuffer\<close>; these stand for them.
\<close>

definition tfImport ::
  "'n golib \<Rightarrow> (string \<Rightarrow> 'n json \<Rightarrow> failure + 'n json) \<Rightarrow> bool \<Rightarrow> 'n world \<Rightarrow> event list" where
  "tfImport lib HCLShape autoApprove w =
     (if open_fails w then [Fatal]
      else Opened #
        (case filterExistingDefinitions (main_tf w) (remote w) of
           (newResourceDefinitions, newProviderDefinitions) \<Rightarrow>
             if length newResourceDefinitions = 0 then [Closed, Exit0]
             else if \<not> autoApprove \<and> declined lib (answer w) then [Closed, Exit0]
             else if header_write_fails w then [Closed, Fatal]
             else Wrote (createHCLDefinitionsBuffer newResourceDefinitions newProviderDefinitions) #
               TerraformInit #
               (if init_fails w then [Closed, Fatal]
                else (case tfImport_loop (import_ok w) 0 newResourceDefinitions newResourceDefinitions of
                        (cmds, ok) \<Rightarrow>
                          map (\<lambda>(resourceName, id). TerraformImport resourceName id) cmds @
                          (if \<not> ok then [Fatal]
                           else (case tfstate w of
                                   ReadError \<Rightarrow> [Closed, Fatal]
                                 | DecodeError \<Rightarrow> [Closed, Fatal]
                                 | Loaded state \<Rightarrow>
                                     (case ConvertTFStateToHCL lib HCLShape state of
                                        Inl e \<Rightarrow> [Panicked]
                                      | Inr buffer \<Rightarrow> final_write w buffer)))))))"

text \<open>
  The import loop of \<^verbatim>\<open>ImportTFStateFromRemote\<close> (lines 67 to 77): the identifier
  is what follows the first hyphen of \<^verbatim>\<open>Type.Name\<close>, or all of it when there is no
  hyphen (\<^verbatim>\<open>strings.Index\<close> returns -1).
\<close>

definition after_hyphen :: "string \<Rightarrow> string" where
  "after_hyphen arg1 =
     (if CHR ''-'' \<in> set arg1 then tl (dropWhile (\<lambda>c. c \<noteq> CHR ''-'') arg1) else arg1)"

fun remote_import_loop ::
  "(nat \<Rightarrow> bool) \<Rightarrow> nat \<Rightarrow> ResourceDefinition list \<Rightarrow> (string \<times> string) list \<times> bool" where
  "remote_import_loop run i [] = ([], True)"
| "remote_import_loop run i (rd # rest) =
     (let arg1 = Type rd @ ''.'' @ Name rd in
      if run i
      then (case remote_import_loop run (i + 1) rest of
              (cmds, ok) \<Rightarrow> ((arg1, after_hyphen arg1) # cmds, ok))
      else ([(arg1, after_hyphen arg1)], False))"

definition ImportTFStateFromRemote ::
  "'n golib \<Rightarrow> (string \<Rightarrow> 'n json \<Rightarrow> 'n json) \<Rightarrow> 'n world \<Rightarrow> event list" where
  "ImportTFStateFromRemote lib sculpt w =
     (if open_fails w then [Fatal]
      else Opened #
        (case filterExistingDefinitions (main_tf w) (remote w) of
           (newResourceDefinitions, newProviderDefinitions) \<Rightarrow>
             if length newResourceDefinitions = 0 then [Closed, Exit0]
             else if declined lib (answer w) then [Closed, Exit0]
             else if header_write_fails w then [Fatal]
             else Wrote (createHCLDefinitionsBuffer newResourceDefinitions newProviderDefinitions) #
               TerraformInit #
               (if init_fails w then [Closed, Fatal]
                else (case remote_import_loop (import_ok w) 0 newResourceDefinitions of
                        (cmds, ok) \<Rightarrow>
                          map (\<lambda>(arg1, id). TerraformImport arg1 id) cmds @
                          (if \<not> ok then [Fatal]
                           else (case tfstate w of
                                   ReadError \<Rightarrow> [Closed, Fatal]
                                 | DecodeError \<Rightarrow> [Closed, Fatal]
                                 | Loaded state \<Rightarrow>
                                     (case convertTFStateToHCL lib sculpt state of
                                        Inl e \<Rightarrow> [Panicked]
                                      | Inr buffer \<Rightarrow> final_write w buffer)))))))"

text \<open>
  A run in which the first \<^verbatim>\<open>terraform import\<close> fails: an empty \<^verbatim>\<open>main.tf\<close>, one
  remote definition, the operator answers \<open>y\<close>.
\<close>

definition import_failure_world :: "nat world" where
  "import_failure_world =
     \<lparr>open_fails = False, main_tf = [], remote = [app_x], answer = ''y'',
      header_write_fails = False, init_fails = False, import_ok = (\<lambda>i. False),
      tfstate = ReadError, final_write_fails = False\<rparr>"

text \<open>
  A resource whose name has digits before a hyphen, as a first run leaves it in the
  state, and the remote definition it was imported from.
\<close>

definition office_definition :: ResourceDefinition where
  "office_definition =
     \<lparr>Provider = ''onelogin'', Name = ''office_365-42'', Type = ''onelogin_apps'', ImportID = ''42''\<rparr>"

definition office_state :: "nat State" where
  "office_state =
     \<lparr>Resources =
        [\<lparr>Content = [], resName = ''office_365-42'', resType = ''onelogin_apps'',
          resProvider = ''provider.onelogin'',
          Instances = [\<lparr>Data = JObj [(''name'', JStr ''Office 365'')]\<rparr>]\<rparr>]\<rparr>"

text \<open>The text \<^verbatim>\<open>convertTFStateToHCL\<close> writes to \<^verbatim>\<open>main.tf\<close> for that state.\<close>

definition office_main_tf :: string where
  "office_main_tf =
     provider_block ''onelogin'' @
     ''resource onelogin_apps office_365-42 {'' @ [CHR 0x0A, CHR 0x09] @
     ''provider = onelogin'' @ [CHR 0x0A, CHR 0x09] @
     ''name = '' @ [CHR 0x22] @ ''Office 365'' @ [CHR 0x22, CHR 0x0A] @ ''}'' @ [CHR 0x0A, CHR 0x0A]"

section \<open>Properties of the import loop\<close>

lemma digit_char_inj: "a < 10 \<Longrightarrow> b < 10 \<Longrightarrow> digit_char a = digit_char b \<Longrightarrow> a = b"
proof -
  assume a: "a < 10" and b: "b < 10" and e: "digit_char a = digit_char b"
  have d: "distinct ''0123456789''" by simp
  have "length ''0123456789'' = 10" by simp
  with a b e d show "a = b"
    unfolding digit_char_def by (metis nth_eq_iff_index_eq)
qed

lemma digit_char_in: "d < 10 \<Longrightarrow> digit_char d \<in> set ''0123456789''"
  unfolding digit_char_def by (rule nth_mem) simp

lemma FormatInt_digits: "set (FormatInt n) \<subseteq> set ''0123456789''"
proof (induction n rule: FormatInt.induct)
  case (1 n)
  show ?case
  proof (cases "n < 10")
    case True
    then show ?thesis using digit_char_in[of n] by (subst FormatInt.simps) simp
  next
    case False
    have "n mod 10 < 10" by simp
    with False 1 digit_char_in[of "n mod 10"] show ?thesis by (subst FormatInt.simps) simp
  qed
qed

lemma FormatInt_nonempty: "FormatInt n \<noteq> []"
  by (subst FormatInt.simps) simp

lemma FormatInt_inj: "FormatInt m = FormatInt n \<Longrightarrow> m = n"
proof (induction m arbitrary: n rule: FormatInt.induct)
  case (1 m)
  show ?case
  proof (cases "m < 10")
    case m: True
    show ?thesis
    proof (cases "n < 10")
      case True
      with m 1(2) show ?thesis
        by (simp add: FormatInt.simps[of m] FormatInt.simps[of n] digit_char_inj)
    next
      case False
      with m 1(2) FormatInt_nonempty[of "n div 10"] show ?thesis
        by (simp add: FormatInt.simps[of m] FormatInt.simps[of n])
    qed
  next
    case m: False
    show ?thesis
    proof (cases "n < 10")
      case True
      with m 1(2) FormatInt_nonempty[of "m div 10"] show ?thesis
        by (simp add: FormatInt.simps[of m] FormatInt.simps[of n])
    next
      case False
      with m 1(2) have e: "FormatInt (m div 10) = FormatInt (n div 10)"
        and d: "digit_char (m mod 10) = digit_char (n mod 10)"
        by (simp_all add: FormatInt.simps[of m] FormatInt.simps[of n])
      from 1(1)[OF m e] have "m div 10 = n div 10" .
      moreover from d have "m mod 10 = n mod 10" by (simp add: digit_char_inj)
      ultimately show ?thesis by (metis div_mult_mod_eq)
    qed
  qed
qed

lemma split_at_sep:
  "c \<notin> set xs \<Longrightarrow> c \<notin> set ys \<Longrightarrow> xs @ c # r = ys @ c # s \<Longrightarrow> xs = ys \<and> r = s"
proof (induction xs arbitrary: ys)
  case Nil
  then show ?case by (cases ys) auto
next
  case (Cons x xs)
  then show ?case by (cases ys) auto
qed

lemma cnt_simps [simp]:
  "cnt nm [] = 0"
  "cnt nm (v # vs) = (if Name v = nm then Suc (cnt nm vs) else cnt nm vs)"
  "cnt nm (xs @ ys) = cnt nm xs + cnt nm ys"
  "cnt nm (replicate k d) = (if Name d = nm then k else 0)"
  by (simp_all add: cnt_def)

lemma cnt_pos: "d \<in> set sl \<Longrightarrow> 0 < cnt (Name d) sl"
  by (induction sl) auto

lemma tfImport_inner_eq:
  "tfImport_inner rd vs (n, r, sl) =
     (n + cnt (Name rd) vs,
      (if cnt (Name rd) vs = 0 then r
       else Type rd @ ''._'' @ Name rd @ ''_'' @ FormatInt (n + cnt (Name rd) vs - 1)),
      sl @ replicate (cnt (Name rd) vs) rd)"
proof (induction vs arbitrary: n r sl)
  case Nil
  then show ?case by simp
next
  case (Cons v vs)
  show ?case
  proof (cases "Name rd = Name v")
    case True
    then show ?thesis
      by (simp add: Cons.IH replicate_app_Cons_same)
  next
    case False
    then have "Name v \<noteq> Name rd" by auto
    with False show ?thesis by (simp add: Cons.IH)
  qed
qed

lemma length_suffixes [simp]: "length (suffixes ds sl) = length ds"
  by (induction ds arbitrary: sl) auto

lemma tfImport_loop_all_ok:
  "set ds \<subseteq> set sl \<Longrightarrow>
   tfImport_loop (\<lambda>i. True) i ds sl =
     (map2 (\<lambda>d n. (identity_of d n, ImportID d)) ds (suffixes ds sl), True)"
proof (induction ds arbitrary: i sl)
  case Nil
  then show ?case by simp
next
  case (Cons d ds)
  then have pos: "0 < cnt (Name d) sl" by (simp add: cnt_pos)
  have sub: "set ds \<subseteq> set (sl @ replicate (cnt (Name d) sl) d)" using Cons.prems by auto
  show ?case
    using pos by (simp add: tfImport_inner_eq Cons.IH[OF sub] identity_of_def)
qed

lemma suffixes_lower:
  "(d, n) \<in> set (zip ds (suffixes ds sl)) \<Longrightarrow> cnt (Name d) sl \<le> n + 1"
proof (induction ds arbitrary: sl)
  case Nil
  then show ?case by simp
next
  case (Cons e ds)
  from Cons.prems consider "d = e" "n = cnt (Name e) sl - 1"
    | "(d, n) \<in> set (zip ds (suffixes ds (sl @ replicate (cnt (Name e) sl) e)))"
    by auto
  then show ?case
  proof cases
    case 1
    then show ?thesis by simp
  next
    case 2
    from Cons.IH[OF 2] show ?thesis by (simp split: if_splits)
  qed
qed

lemma suffixes_distinct:
  "set ds \<subseteq> set sl \<Longrightarrow> distinct (map (\<lambda>(d, n). (Name d, n)) (zip ds (suffixes ds sl)))"
proof (induction ds arbitrary: sl)
  case Nil
  then show ?case by simp
next
  case (Cons e ds)
  let ?c = "cnt (Name e) sl"
  let ?sl = "sl @ replicate ?c e"
  have pos: "0 < ?c" using Cons.prems by (simp add: cnt_pos)
  have sub: "set ds \<subseteq> set ?sl" using Cons.prems by auto
  have "(Name e, ?c - 1) \<notin> (\<lambda>(d, n). (Name d, n)) ` set (zip ds (suffixes ds ?sl))"
  proof
    assume "(Name e, ?c - 1) \<in> (\<lambda>(d, n). (Name d, n)) ` set (zip ds (suffixes ds ?sl))"
    then obtain d where m: "(d, ?c - 1) \<in> set (zip ds (suffixes ds ?sl))" and nm: "Name d = Name e"
      by auto
    from suffixes_lower[OF m] nm have "?c + ?c \<le> ?c - 1 + 1" by simp
    with pos show False by simp
  qed
  with Cons.IH[OF sub] show ?case by simp
qed

lemma distinct_map_transfer:
  "distinct (map h xs) \<Longrightarrow> (\<And>x y. x \<in> set xs \<Longrightarrow> y \<in> set xs \<Longrightarrow> g x = g y \<Longrightarrow> h x = h y) \<Longrightarrow>
   distinct (map g xs)"
proof (induction xs)
  case Nil
  then show ?case by simp
next
  case (Cons x xs)
  have "g x \<notin> g ` set xs"
  proof
    assume "g x \<in> g ` set xs"
    then obtain y where y: "y \<in> set xs" "g x = g y" by auto
    then have "h x = h y" using Cons.prems(2)[of x y] by simp
    with y Cons.prems(1) show False by auto
  qed
  moreover have "distinct (map g xs)"
    using Cons.IH Cons.prems by auto
  ultimately show ?case by simp
qed

lemma name_suffix_inj:
  assumes "N1 @ ''_'' @ FormatInt n1 = N2 @ ''_'' @ FormatInt n2"
  shows "N1 = N2 \<and> n1 = n2"
proof -
  have u1: "CHR ''_'' \<notin> set (rev (FormatInt n1))" and u2: "CHR ''_'' \<notin> set (rev (FormatInt n2))"
    using FormatInt_digits[of n1] FormatInt_digits[of n2] by auto
  from assms have "rev (N1 @ ''_'' @ FormatInt n1) = rev (N2 @ ''_'' @ FormatInt n2)" by simp
  then have "rev (FormatInt n1) @ CHR ''_'' # rev N1 = rev (FormatInt n2) @ CHR ''_'' # rev N2"
    by simp
  from split_at_sep[OF u1 u2 this] show ?thesis by (auto dest: FormatInt_inj)
qed

lemma identity_of_inj_same_type:
  "Type d = Type e \<Longrightarrow> identity_of d m = identity_of e n \<Longrightarrow> Name d = Name e \<and> m = n"
  unfolding identity_of_def using name_suffix_inj[of "Name d" m "Name e" n] by simp

lemma identity_of_inj_dotfree:
  assumes "CHR ''.'' \<notin> set (Type d)" "CHR ''.'' \<notin> set (Type e)"
    and "identity_of d m = identity_of e n"
  shows "Type d = Type e \<and> Name d = Name e \<and> m = n"
proof -
  from assms(3) have "Type d @ CHR ''.'' # (''_'' @ Name d @ ''_'' @ FormatInt m)
      = Type e @ CHR ''.'' # (''_'' @ Name e @ ''_'' @ FormatInt n)"
    by (simp add: identity_of_def)
  from split_at_sep[OF assms(1,2) this] have t: "Type d = Type e" by simp
  with identity_of_inj_same_type[OF t assms(3)] show ?thesis by simp
qed

lemma tfImport_identities_eq:
  "tfImport_identities defs = map (\<lambda>(d, n). identity_of d n) (zip defs (suffixes defs defs))"
proof -
  have "map fst (map2 (\<lambda>d n. (identity_of d n, ImportID d)) defs (suffixes defs defs))
        = map (\<lambda>(d, n). identity_of d n) (zip defs (suffixes defs defs))"
    by (simp add: case_prod_beta)
  then show ?thesis
    by (simp add: tfImport_identities_def tfImport_loop_all_ok)
qed

lemma zip_types_identities:
  "zip (map Type defs) (tfImport_identities defs)
     = map (\<lambda>(d, n). (Type d, identity_of d n)) (zip defs (suffixes defs defs))"
  unfolding tfImport_identities_eq
  by (rule nth_equalityI) simp_all

text \<open>
  What the loop does for every batch: it issues exactly one identity per input
  definition, each of the form \<open>Type._Name_n\<close> with \<open>n\<close> a decimal number; two
  definitions of the same \<open>Type\<close> never receive the same identity, and when no
  \<open>Type\<close> contains a dot the identity strings are pairwise distinct.  The numbers
  differ because every match appends to the slice that the next inner loop counts.
\<close>

lemma tfImport_identities_distinct:
  "length (tfImport_identities defs) = length defs \<and>
   distinct (zip (map Type defs) (tfImport_identities defs)) \<and>
   ((\<forall>d \<in> set defs. CHR ''.'' \<notin> set (Type d)) \<longrightarrow> distinct (tfImport_identities defs)) \<and>
   (\<forall>i < length defs. \<exists>n. tfImport_identities defs ! i
        = Type (defs ! i) @ ''._'' @ Name (defs ! i) @ ''_'' @ FormatInt n)"
proof -
  let ?zs = "zip defs (suffixes defs defs)"
  have base: "distinct (map (\<lambda>(d, n). (Name d, n)) ?zs)"
    by (rule suffixes_distinct) simp
  have len: "length (tfImport_identities defs) = length defs"
    by (simp add: tfImport_identities_eq)
  have pairs: "distinct (zip (map Type defs) (tfImport_identities defs))"
    unfolding zip_types_identities
  proof (rule distinct_map_transfer[OF base])
    fix x y assume e: "(case x of (d, n) \<Rightarrow> (Type d, identity_of d n)) = (case y of (d, n) \<Rightarrow> (Type d, identity_of d n))"
    obtain d m where xd: "x = (d, m)" by (cases x)
    obtain d' n where yd: "y = (d', n)" by (cases y)
    from e xd yd have "Type d = Type d'" "identity_of d m = identity_of d' n" by simp_all
    from identity_of_inj_same_type[OF this] xd yd
    show "(case x of (d, n) \<Rightarrow> (Name d, n)) = (case y of (d, n) \<Rightarrow> (Name d, n))" by simp
  qed
  have strs: "distinct (tfImport_identities defs)" if df: "\<forall>d \<in> set defs. CHR ''.'' \<notin> set (Type d)"
    unfolding tfImport_identities_eq
  proof (rule distinct_map_transfer[OF base])
    fix x y assume x: "x \<in> set ?zs" and y: "y \<in> set ?zs"
      and e: "(case x of (d, n) \<Rightarrow> identity_of d n) = (case y of (d, n) \<Rightarrow> identity_of d n)"
    obtain d m where xd: "x = (d, m)" by (cases x)
    obtain d' n where yd: "y = (d', n)" by (cases y)
    from x xd have "d \<in> set defs" by (auto dest: set_zip_leftD)
    moreover from y yd have "d' \<in> set defs" by (auto dest: set_zip_leftD)
    ultimately have "CHR ''.'' \<notin> set (Type d)" "CHR ''.'' \<notin> set (Type d')" using df by auto
    from identity_of_inj_dotfree[OF this] e xd yd
    show "(case x of (d, n) \<Rightarrow> (Name d, n)) = (case y of (d, n) \<Rightarrow> (Name d, n))" by simp
  qed
  have form: "\<exists>n. tfImport_identities defs ! i
        = Type (defs ! i) @ ''._'' @ Name (defs ! i) @ ''_'' @ FormatInt n" if "i < length defs" for i
    using that by (auto simp: tfImport_identities_eq identity_of_def)
  from len pairs strs form show ?thesis by blast
qed

text \<open>
  A definition whose name collides with no other is suffixed as well, and three
  definitions of one name receive the numbers 2, 5 and 11.
\<close>

lemma suffixes_of_one_and_three:
  "tfImport_identities [app_x] = [''app._x_0''] \<and>
   tfImport_identities [app_x, app_x, app_x] = [''app._x_2'', ''app._x_5'', ''app._x_11'']"
  by (simp add: tfImport_identities_def app_x_def FormatInt.simps digit_char_def)

text \<open>
  Claim C1 fails on the code.  For the batch of two definitions
  \<open>{Type: app, Name: x}\<close> the loop of \<^verbatim>\<open>tfImport\<close> produces \<open>app._x_1\<close> and
  \<open>app._x_3\<close>, not \<open>app.x\<close> and \<open>app._x_0\<close>.  \<^verbatim>\<open>resourceName\<close> starts as
  \<open>Type.Name\<close>, but the name test of the inner loop also holds for the definition
  itself, so the plain name is always overwritten: the first definition matches itself
  and its twin (two matches, last suffix 1) and is appended twice; the second then ranges
  over four definitions named \<open>x\<close> (last suffix 3).
\<close>

theorem collision_batch_identities:
  "tfImport_identities [app_x, app_x] = [''app._x_1'', ''app._x_3''] \<and>
   tfImport_identities [app_x, app_x] \<noteq> [''app.x'', ''app._x_0'']"
  by (simp add: tfImport_identities_def app_x_def FormatInt.simps digit_char_def)

section \<open>Properties of the scan and the filter\<close>

lemmas scan_defs = resource_key_def provider_key_def FindStringSubmatch_def resource_re_def
  provider_re_def group_text_def in_range_def is_letter_def

lemma lines_one: "Scanner_lines ''resource app x {'' = [''resource app x {'']"
  by (simp add: Scanner_lines_def dropCR_def)

lemma rk_one: "resource_key ''resource app x {'' = Some ''app.x''"
  by (simp add: scan_defs)

lemma pk_one: "provider_key ''resource app x {'' = None"
  by (simp add: scan_defs)

text \<open>
  Claim C3 (as amended).  The providers returned by the filter are pairwise different,
  and they are exactly the providers of the incoming definitions, whether these survive
  the filter or not, for which the scan of the file found no provider block.
\<close>

theorem filterExistingDefinitions_providers:
  "distinct (snd (filterExistingDefinitions f defs)) \<and>
   set (snd (filterExistingDefinitions f defs)) =
     {p. p \<in> Provider ` set defs \<and> p \<notin> set (provider_keys f)}"
  by (auto simp: filterExistingDefinitions_def providerMap_keys_def count_list_0_iff)

text \<open>
  Claim C3 as stated fails: the file declares the resource \<open>app.x\<close> and no provider;
  the only incoming definition is filtered out as already declared, and its provider
  \<open>onelogin\<close> is returned all the same, because \<^verbatim>\<open>providerMap\<close> is filled before
  the test of line 151.
\<close>

theorem provider_of_declared_resource_counterexample:
  "filterExistingDefinitions ''resource app x {'' [app_x] = ([], [''onelogin''])"
  by (simp add: filterExistingDefinitions_def resource_keys_def provider_keys_def lines_one
      rk_one pk_one List.map_filter_def providerMap_keys_def app_x_def)

text \<open>
  The resource pattern does recognise the header line of a resource whose type is made
  of letters, underscores and hyphens and whose name is made of such bytes followed by
  digits; a definition with such a header on a line of the file is filtered out.
\<close>

lemma first_some_first: "f n = Some r \<Longrightarrow> first_some f n = Some r"
  by (cases n) simp_all

lemma takeWhile_stop:
  "list_all P xs \<Longrightarrow> \<not> P y \<Longrightarrow> takeWhile P (xs @ y # ys) = xs"
  by (induction xs) simp_all

lemma match_star_greedy:
  assumes "list_all (in_class c) xs" and "\<not> in_class c y"
    and "match_atoms as (y # ys) = Some r"
  shows "match_atoms (Star c # as) (xs @ y # ys) = Some (xs # r)"
proof -
  have t: "takeWhile (\<lambda>x. in_class c x) (xs @ y # ys) = xs"
    using assms(1,2) by (rule takeWhile_stop)
  show ?thesis
    by (simp add: t first_some_first assms(3))
qed

lemma digit_not_resource_name: "in_class Digit g \<Longrightarrow> \<not> in_class ResourceName g"
proof
  assume d: "in_class Digit g" and r: "in_class ResourceName g"
  from d have lo: "CHR ''0'' \<le> g" and hi: "g \<le> CHR ''9''" by (simp_all add: in_range_def)
  from r consider "CHR ''a'' \<le> g" | "CHR ''A'' \<le> g" "g \<le> CHR ''Z''" | "g = CHR ''_''" | "g = CHR ''-''"
    by (auto simp: in_range_def is_letter_def)
  then show False
  proof cases
    case 1
    from 1 hi have "CHR ''a'' \<le> CHR ''9''" by (rule order_trans)
    then show False by simp
  next
    case 2
    from 2(1) hi have "CHR ''A'' \<le> CHR ''9''" by (rule order_trans)
    then show False by simp
  next
    case 3
    with hi show False by simp
  next
    case 4
    with lo show False by simp
  qed
qed

lemma match_star_digits_then:
  assumes "list_all (in_class ResourceName) l" and "list_all (in_class Digit) dgs"
    and "match_atoms as (CHR '' '' # ys) = Some r"
  shows "match_atoms (Star ResourceName # Star Digit # as) (l @ dgs @ CHR '' '' # ys)
           = Some (l # dgs # r)"
proof (cases dgs)
  case Nil
  have "match_atoms (Star Digit # as) (CHR '' '' # ys) = Some ([] # r)"
    using match_star_greedy[of Digit "[]" "CHR '' ''" as ys r] assms(3)
    by (simp add: in_range_def)
  then show ?thesis
    using match_star_greedy[of ResourceName l "CHR '' ''" "Star Digit # as" ys "[] # r"] assms(1) Nil
    by (simp add: in_range_def is_letter_def)
next
  case (Cons g gs)
  have g: "in_class Digit g" and gs: "list_all (in_class Digit) gs" using assms(2) Cons by simp_all
  have ng: "\<not> in_class ResourceName g"
    using g by (rule digit_not_resource_name)
  have "match_atoms (Star Digit # as) (dgs @ CHR '' '' # ys) = Some (dgs # r)"
    using match_star_greedy[of Digit dgs "CHR '' ''" as ys r] assms(2,3)
    by (simp add: in_range_def)
  then have "match_atoms (Star Digit # as) (g # gs @ CHR '' '' # ys) = Some (dgs # r)"
    by (simp add: Cons)
  from match_star_greedy[OF assms(1) ng this]
  show ?thesis by (simp add: Cons)
qed

lemma match_star_word:
  "match_atoms (Star Word # as) s =
     first_some (\<lambda>j. map_option ((#) (take j s)) (match_atoms as (drop j s)))
       (length (takeWhile (\<lambda>x. in_class Word x) s))"
  by (rule match_atoms.simps(5))

lemma resource_header_pieces:
  assumes T: "list_all (in_class ResourceName) T"
    and L: "list_all (in_class ResourceName) L"
    and D: "list_all (in_class Digit) D"
  shows "match_atoms (map fst (atoms resource_re)) (''resource '' @ T @ '' '' @ L @ D @ '' {'')
         = Some ([[], ''r'', ''e'', ''s'', ''o'', ''u'', ''r'', ''c'', ''e'', [], '' '', T, '' '', L, D, '' '', ''{''])"
proof -
  define rest where "rest = T @ CHR '' '' # L @ D @ CHR '' '' # ''{''"
  have tail: "match_atoms [Opt Space, Lit CHR ''{''] (CHR '' '' # ''{'') = Some ['' '', ''{'']"
    by simp
  have m2: "match_atoms [Star ResourceName, Star Digit, Opt Space, Lit CHR ''{'']
              (L @ D @ CHR '' '' # ''{'') = Some [L, D, '' '', ''{'']"
    by (rule match_star_digits_then[OF L D tail])
  have m1: "match_atoms [One Space, Star ResourceName, Star Digit, Opt Space, Lit CHR ''{'']
              (CHR '' '' # L @ D @ CHR '' '' # ''{'') = Some ['' '', L, D, '' '', ''{'']"
    by (simp add: m2 del: match_atoms.simps(5))
  have ns: "\<not> in_class ResourceName CHR '' ''"
    by (simp add: in_range_def is_letter_def)
  have m0: "match_atoms [Star ResourceName, One Space, Star ResourceName, Star Digit, Opt Space,
                Lit CHR ''{''] rest = Some [T, '' '', L, D, '' '', ''{'']"
    unfolding rest_def by (rule match_star_greedy[OF T ns m1])
  have "match_atoms (map fst (atoms resource_re)) (''resource '' @ rest)
         = Some ([[], ''r'', ''e'', ''s'', ''o'', ''u'', ''r'', ''c'', ''e'', [], '' '', T, '' '', L, D, '' '', ''{''])"
    by (simp add: resource_re_def match_star_word m0 in_range_def is_letter_def
        del: match_atoms.simps(5))
  then show ?thesis by (simp add: rest_def)
qed

lemma resource_header_recognised:
  assumes "list_all (in_class ResourceName) T"
    and "list_all (in_class ResourceName) L"
    and "list_all (in_class Digit) D"
  shows "resource_key (''resource '' @ T @ '' '' @ L @ D @ '' {'') = Some (T @ ''.'' @ L @ D)"
proof -
  have "find_match (map fst (atoms resource_re)) (''resource '' @ T @ '' '' @ L @ D @ '' {'')
         = Some ([[], ''r'', ''e'', ''s'', ''o'', ''u'', ''r'', ''c'', ''e'', [], '' '', T, '' '', L, D, '' '', ''{''])"
    using resource_header_pieces[OF assms] by simp
  then show ?thesis
    by (simp add: resource_key_def FindStringSubmatch_def group_text_def resource_re_def)
qed

lemma declared_resource_filtered:
  assumes "''resource '' @ Type rd @ '' '' @ L @ D @ '' {'' \<in> set (Scanner_lines f)"
    and "Name rd = L @ D"
    and "list_all (in_class ResourceName) (Type rd)"
    and "list_all (in_class ResourceName) L"
    and "list_all (in_class Digit) D"
  shows "rd \<notin> set (fst (filterExistingDefinitions f resourceDefinitions))"
proof -
  have "resource_key (''resource '' @ Type rd @ '' '' @ L @ D @ '' {'') = Some (Type rd @ ''.'' @ Name rd)"
    using resource_header_recognised[OF assms(3,4,5)] assms(2) by simp
  with assms(1) have "Type rd @ ''.'' @ Name rd \<in> set (resource_keys f)"
    unfolding resource_keys_def List.map_filter_def by force
  then have "count_list (resource_keys f) (Type rd @ ''.'' @ Name rd) \<noteq> 0"
    by (simp add: count_list_0_iff)
  then show ?thesis by (simp add: filterExistingDefinitions_def)
qed

lemma office_text:
  "convertTFStateToHCL example_lib (\<lambda>t d. d) office_state =
     Inr office_main_tf"
  by (simp add: convertTFStateToHCL_def office_state_def example_lib_def Let_def indent_def
      Quote_def is_ascii_def quote_byte_def office_main_tf_def)

lemma office_lines:
  "Scanner_lines office_main_tf
   = [''provider onelogin {'', [CHR 0x09] @ ''alias = '' @ [CHR 0x22] @ ''onelogin'' @ [CHR 0x22],
      ''}'', [], ''resource onelogin_apps office_365-42 {'', [CHR 0x09] @ ''provider = onelogin'',
      [CHR 0x09] @ ''name = '' @ [CHR 0x22] @ ''Office 365'' @ [CHR 0x22], ''}'', []]"
  by (simp add: Scanner_lines_def dropCR_def provider_block_def office_main_tf_def)

lemma office_resource_keys: "resource_keys office_main_tf = []"
  by (simp add: resource_keys_def office_lines List.map_filter_def scan_defs)

lemma office_provider_keys: "provider_keys office_main_tf = [''onelogin'']"
  by (simp add: provider_keys_def office_lines List.map_filter_def scan_defs)

text \<open>
  Claim C2 fails on the code.  The first run wrote the block of the resource
  \<open>onelogin_apps.office_365-42\<close> to the file; the resource pattern does not match its
  header line, since the name part of the pattern allows digits only at the end of the
  name, so the second run returns the same definition as new.
\<close>

theorem second_run_reimports_office:
  "convertTFStateToHCL example_lib (\<lambda>t d. d) office_state = Inr office_main_tf \<and>
   filterExistingDefinitions office_main_tf [office_definition] = ([office_definition], [])"
  by (simp add: office_text filterExistingDefinitions_def
      office_resource_keys office_provider_keys providerMap_keys_def office_definition_def)

section \<open>Properties of the two procedures\<close>

lemma Closed_not_import: "Closed \<notin> set (map (\<lambda>(resourceName, id). TerraformImport resourceName id) cmds)"
  by (induction cmds) auto

text \<open>
  In every run of \<^verbatim>\<open>tfImport\<close> that reaches the import loop and in which an import
  fails, the file is never closed and the run ends in \<^verbatim>\<open>log.Fatal\<close>.
\<close>

lemma tfImport_failed_import_open:
  assumes "\<not> open_fails w"
    and "filterExistingDefinitions (main_tf w) (remote w) = (nd, np)"
    and "nd \<noteq> []"
    and "autoApprove \<or> \<not> declined lib (answer w)"
    and "\<not> header_write_fails w"
    and "\<not> init_fails w"
    and "\<not> snd (tfImport_loop (import_ok w) 0 nd nd)"
  shows "Closed \<notin> set (tfImport lib HCLShape autoApprove w) \<and>
         last (tfImport lib HCLShape autoApprove w) = Fatal"
proof -
  obtain cmds ok where l: "tfImport_loop (import_ok w) 0 nd nd = (cmds, ok)"
    by (cases "tfImport_loop (import_ok w) 0 nd nd")
  with assms(7) have ok: "\<not> ok" by simp
  have "tfImport lib HCLShape autoApprove w =
          Opened # Wrote (createHCLDefinitionsBuffer nd np) # TerraformInit #
          map (\<lambda>(resourceName, id). TerraformImport resourceName id) cmds @ [Fatal]"
    using assms(1-6) l ok by (auto simp: tfImport_def)
  then show ?thesis using Closed_not_import[of cmds] by simp
qed

text \<open>
  In every other run that opened the file and does not panic while converting the state,
  \<^verbatim>\<open>tfImport\<close> closes the file.
\<close>

lemma tfImport_closes_otherwise:
  assumes "\<not> open_fails w"
    and "filterExistingDefinitions (main_tf w) (remote w) = (nd, np)"
    and "snd (tfImport_loop (import_ok w) 0 nd nd)"
    and "\<And>state. tfstate w = Loaded state \<Longrightarrow> ConvertTFStateToHCL lib HCLShape state \<noteq> Inl Panic"
  shows "Closed \<in> set (tfImport lib HCLShape autoApprove w)"
proof -
  obtain cmds ok where l: "tfImport_loop (import_ok w) 0 nd nd = (cmds, ok)"
    by (cases "tfImport_loop (import_ok w) 0 nd nd")
  with assms(3) have ok: "ok" by simp
  show ?thesis
  proof (cases "tfstate w")
    case ReadError
    then show ?thesis using assms(1,2) l ok by (auto simp: tfImport_def)
  next
    case DecodeError
    then show ?thesis using assms(1,2) l ok by (auto simp: tfImport_def)
  next
    case (Loaded state)
    with assms(4) obtain buffer where "ConvertTFStateToHCL lib HCLShape state = Inr buffer"
      by (cases "ConvertTFStateToHCL lib HCLShape state") (auto intro: failure.exhaust)
    then show ?thesis using assms(1,2) l ok Loaded
      by (auto simp: tfImport_def final_write_def)
  qed
qed

lemma filter_empty_file: "filterExistingDefinitions [] defs = (defs, remdups (map Provider defs))"
  by (simp add: filterExistingDefinitions_def resource_keys_def provider_keys_def
      Scanner_lines_def List.map_filter_def providerMap_keys_def)

lemma tfImport_import_failure_trace:
  "tfImport example_lib (\<lambda>t d. Inr d) False import_failure_world =
     [Opened, Wrote (createHCLDefinitionsBuffer [app_x] [''onelogin'']), TerraformInit,
      TerraformImport ''app._x_0'' ''1'', Fatal]"
  by (simp add: tfImport_def import_failure_world_def filter_empty_file
      declined_def ToLower_def is_ascii_def lower_byte_def example_lib_def app_x_def
      FormatInt.simps digit_char_def)

lemma ImportTFStateFromRemote_import_failure_trace:
  "ImportTFStateFromRemote example_lib (\<lambda>t d. d) import_failure_world =
     [Opened, Wrote (createHCLDefinitionsBuffer [app_x] [''onelogin'']), TerraformInit,
      TerraformImport ''app.x'' ''app.x'', Fatal]"
  by (simp add: ImportTFStateFromRemote_def import_failure_world_def filter_empty_file
      declined_def ToLower_def is_ascii_def lower_byte_def example_lib_def app_x_def
      Let_def after_hyphen_def)

text \<open>
  Claim C9 fails on the code.  When a \<^verbatim>\<open>terraform import\<close> fails, both procedures
  end in \<^verbatim>\<open>log.Fatal\<close> with the file opened and never closed.
\<close>

theorem import_failure_leaves_file_open:
  "Opened \<in> set (tfImport example_lib (\<lambda>t d. Inr d) False import_failure_world) \<and>
   Closed \<notin> set (tfImport example_lib (\<lambda>t d. Inr d) False import_failure_world) \<and>
   last (tfImport example_lib (\<lambda>t d. Inr d) False import_failure_world) = Fatal \<and>
   Opened \<in> set (ImportTFStateFromRemote example_lib (\<lambda>t d. d) import_failure_world) \<and>
   Closed \<notin> set (ImportTFStateFromRemote example_lib (\<lambda>t d. d) import_failure_world) \<and>
   last (ImportTFStateFromRemote example_lib (\<lambda>t d. d) import_failure_world) = Fatal"
  by (simp add: tfImport_import_failure_trace ImportTFStateFromRemote_import_failure_trace)

section \<open>Properties of the two serializers\<close>

lemma stateparser_range_append:
  "stateparser_range lib (xs @ ys) d =
     (case stateparser_range lib xs d of
        Inl e \<Rightarrow> Inl e
      | Inr a \<Rightarrow> (case stateparser_range lib ys d of Inl e \<Rightarrow> Inl e | Inr b \<Rightarrow> Inr (a @ b)))"
proof (induction xs)
  case Nil
  show ?case by (simp split: sum.splits)
next
  case (Cons kv xs)
  obtain k v where kv: "kv = (k, v)" by (cases kv)
  show ?case unfolding kv by (simp add: Cons.IH split: sum.splits)
qed

lemma tfimport_range_append:
  "tfimport_range lib (xs @ ys) d =
     (case tfimport_range lib xs d of
        Inl e \<Rightarrow> Inl e
      | Inr a \<Rightarrow> (case tfimport_range lib ys d of Inl e \<Rightarrow> Inl e | Inr b \<Rightarrow> Inr (a @ b)))"
proof (induction xs)
  case Nil
  show ?case by (simp split: sum.splits)
next
  case (Cons kv xs)
  obtain k v where kv: "kv = (k, v)" by (cases kv)
  show ?case unfolding kv by (simp add: Cons.IH split: sum.splits)
qed

lemma stateparser_switch_elided:
  "v = JNull \<or> v = JArr [] \<or> v = JObj [] \<Longrightarrow> stateparser_switch lib k v d = Inr []"
  by auto

lemma stateparser_elision:
  assumes "v = JNull \<or> v = JArr [] \<or> v = JObj []"
  shows "stateparser_convertToHCLLine lib (JObj (pre @ (k, v) # post)) d
         = stateparser_convertToHCLLine lib (JObj (pre @ post)) d"
proof -
  have e: "stateparser_range lib ((k, v) # post) d = stateparser_range lib post d"
    using stateparser_switch_elided[OF assms, of lib k d] by (simp split: sum.splits)
  show ?thesis
    by (simp only: stateparser_convertToHCLLine.simps stateparser_range_append[of lib pre] e)
qed

lemma tfimport_elision_empty:
  assumes "v = JArr [] \<or> v = JObj m"
  shows "tfimport_convertToHCLLine lib (JObj (pre @ (k, v) # post)) d
         = tfimport_convertToHCLLine lib (JObj (pre @ post)) d"
proof -
  have "tfimport_switch lib k v d = Inr []" using assms by auto
  then have e: "tfimport_range lib ((k, v) # post) d = tfimport_range lib post d"
    by (simp split: sum.splits)
  show ?thesis
    by (simp only: tfimport_convertToHCLLine.simps tfimport_range_append[of lib pre] e)
qed

lemma tfimport_nil_panics:
  "tfimport_convertToHCLLine lib (JObj (pre @ (k, JNull) # post)) d = Inl Panic"
proof -
  have e: "tfimport_range lib ((k, JNull) # post) d = Inl Panic" by simp
  have "tfimport_range lib (pre @ (k, JNull) # post) d = Inl Panic"
  proof (cases "tfimport_range lib pre d")
    case (Inl f)
    then show ?thesis by (cases f) (simp only: tfimport_range_append[of lib pre] sum.case)
  next
    case (Inr a)
    then show ?thesis by (simp only: tfimport_range_append[of lib pre] e sum.case)
  qed
  then show ?thesis by (simp only: tfimport_convertToHCLLine.simps)
qed

lemma stateparser_blocks_bodies:
  "list_all2 (\<lambda>x body. stateparser_convertToHCLLine lib x (d + 1) = Inr body) sl bodies \<Longrightarrow>
   stateparser_blocks lib k sl d = Inr (concat (map (block_of lib k d) bodies))"
  by (induction sl bodies rule: list_all2_induct) (simp_all add: block_of_def)

lemma tfimport_blocks_bodies:
  "list_all2 (\<lambda>x body. tfimport_convertToHCLLine lib x (d + 1) = Inr body) sl bodies \<Longrightarrow>
   tfimport_blocks lib k sl d = Inr (concat (map (block_of lib k d) bodies))"
  by (induction sl bodies rule: list_all2_induct) (simp_all add: block_of_def)

lemma stateparser_blocks_panic:
  "x \<in> set sl \<Longrightarrow> stateparser_convertToHCLLine lib x (d + 1) = Inl e \<Longrightarrow>
   stateparser_blocks lib k sl d = Inl Panic"
proof (induction sl)
  case Nil
  then show ?case by simp
next
  case (Cons y sl)
  show ?case
  proof (cases "x = y")
    case True
    with Cons.prems show ?thesis by (cases e) simp
  next
    case False
    with Cons have "stateparser_blocks lib k sl d = Inl Panic" by simp
    then show ?thesis by (auto split: sum.splits intro: failure.exhaust)
  qed
qed

lemma hex_digit_no_newline: "n < 16 \<Longrightarrow> hex_digit n \<noteq> CHR 0x0A"
proof -
  assume "n < 16"
  then have "n < length ''0123456789abcdef''" by simp
  then have "''0123456789abcdef'' ! n \<in> set ''0123456789abcdef''" by (rule nth_mem)
  then show ?thesis unfolding hex_digit_def by auto
qed

lemma of_char_div_16: "(of_char c :: nat) div 16 < 16"
proof -
  have "(of_char c :: nat) < 16 * 16" using nat_of_char_less_256[of c] by simp
  then show ?thesis by (rule less_mult_imp_div_less)
qed

lemma quote_byte_no_newline: "CHR 0x0A \<notin> set (quote_byte c)"
proof (cases "c = CHR 0x0A")
  case True
  then show ?thesis by (simp add: quote_byte_def)
next
  case False
  have h1: "hex_digit (of_char c div 16) \<noteq> CHR 0x0A"
    by (rule hex_digit_no_newline) (rule of_char_div_16)
  have h2: "hex_digit (of_char c mod 16) \<noteq> CHR 0x0A"
    by (rule hex_digit_no_newline) simp
  from False h1 h2 show ?thesis by (auto simp: quote_byte_def)
qed

lemma Quote_ascii_one_line:
  "list_all is_ascii s \<Longrightarrow> CHR 0x0A \<notin> set (Quote lib s)"
  using quote_byte_no_newline by (auto simp: Quote_def)

lemmas lib_eval = example_lib_def indent_def Quote_def ToLower_def is_ascii_def quote_byte_def
  lower_byte_def FormatInt.simps digit_char_def bool_text_def block_of_def

text \<open>
  Claim C4 fails on the code of package \<^verbatim>\<open>tfimport\<close>.  Its \<^verbatim>\<open>convertToHCLLine\<close>
  hands a \<^verbatim>\<open>nil\<close> value to \<^verbatim>\<open>reflect.TypeOf(v).Kind()\<close>: the process panics and
  the sibling key is not serialized.  The function of package \<^verbatim>\<open>stateparser\<close> tests
  \<^verbatim>\<open>v != nil\<close> first and writes the sibling key alone (see also
  \<open>stateparser_elision\<close> and \<open>tfimport_nil_panics\<close> above).
\<close>

theorem nil_value_panics_in_tfimport:
  "tfimport_convertToHCLLine example_lib (JObj [(''a'', JNull), (''b'', JStr ''c'')]) 1 = Inl Panic \<and>
   stateparser_convertToHCLLine example_lib (JObj [(''a'', JNull), (''b'', JStr ''c'')]) 1
     = Inr ([CHR 0x09] @ ''b = '' @ [CHR 0x22] @ ''c'' @ [CHR 0x22, CHR 0x0A])"
  by (simp add: lib_eval)

text \<open>
  Claim C7 fails on the code of package \<^verbatim>\<open>tfimport\<close>.  Its \<^verbatim>\<open>convertToHCLLine\<close>
  has no case for maps: a non-empty nested map falls to \<^verbatim>\<open>default\<close> and nothing is
  written for the key.  The function of package \<^verbatim>\<open>stateparser\<close> writes the header
  \<open>m = {\<close>, the entries one level deeper and the closing brace.
\<close>

theorem nested_map_dropped_by_tfimport:
  "tfimport_convertToHCLLine example_lib (JObj [(''m'', JObj [(''a'', JStr ''b'')])]) 1 = Inr [] \<and>
   stateparser_convertToHCLLine example_lib (JObj [(''m'', JObj [(''a'', JStr ''b'')])]) 1
     = Inr ([CHR 0x0A, CHR 0x09] @ ''m = {'' @ [CHR 0x0A, CHR 0x09, CHR 0x09] @ ''a = '' @
            [CHR 0x22] @ ''b'' @ [CHR 0x22, CHR 0x0A, CHR 0x09] @ ''}'' @ [CHR 0x0A])"
  by (simp add: lib_eval)

lemma stateparser_nested_map:
  "m \<noteq> [] \<Longrightarrow> stateparser_convertToHCLLine lib (JObj m) (d + 1) = Inr body \<Longrightarrow>
   stateparser_switch lib k (JObj m) d =
     Inr (ToLower lib ([CHR 0x0A] @ indent d @ ToSnakeCase lib k @ '' = {'' @ [CHR 0x0A])
          @ body @ indent d @ ''}'' @ [CHR 0x0A])"
  by simp

lemma stateparser_string_list:
  "sl \<noteq> [] \<Longrightarrow> TypeOf_Kind (hd sl) = Some String \<Longrightarrow>
   stateparser_switch lib k (JArr sl) d =
     Inr (indent d @ ToSnakeCase lib k @ '' = ['' @ join '', '' (map (Sprintf_q lib) sl) @ '']'' @ [CHR 0x0A])"
  by (cases sl) simp_all

lemma stateparser_number_list:
  "sl \<noteq> [] \<Longrightarrow> TypeOf_Kind (hd sl) = Some Float64 \<or> TypeOf_Kind (hd sl) = Some Bool \<Longrightarrow>
   stateparser_switch lib k (JArr sl) d =
     Inr (indent d @ ToSnakeCase lib k @ '' = ['' @ join '', '' (map (Sprintf_0f lib) sl) @ '']'' @ [CHR 0x0A])"
  by (cases sl) auto

lemma stateparser_list_of_strings:
  assumes "strs \<noteq> []"
  shows "stateparser_switch lib k (JArr (map JStr strs)) d =
     Inr (indent d @ ToSnakeCase lib k @ '' = ['' @ join '', '' (map (Quote lib) strs) @ '']'' @ [CHR 0x0A])"
proof -
  have m: "map (Sprintf_q lib) (map JStr strs) = map (Quote lib) strs" by simp
  have n: "map JStr strs \<noteq> []" using assms by simp
  have h: "TypeOf_Kind (hd (map JStr strs)) = Some String" using assms by (cases strs) simp_all
  show ?thesis using stateparser_string_list[OF n h, of lib k d] by (simp only: m)
qed

text \<open>
  What \<^verbatim>\<open>convertToHCLLine\<close> of package \<^verbatim>\<open>stateparser\<close> does for a non-empty
  list whose first element is a scalar.  The list is written as one line
  \<open>key = [e1, e2, ...]\<close>, the elements separated by a comma and a space.  When the
  first element is a string every element is formatted with \<^verbatim>\<open>%q\<close>; for a list of
  strings every element is the string quoted by \<^verbatim>\<open>strconv.Quote\<close>, which for an ASCII
  string is the string between double quotes with its special bytes escaped and holds no
  newline.  When the first element is a number or a boolean every element, whatever its
  type, is formatted with \<^verbatim>\<open>%0.f\<close>.
\<close>

lemma stateparser_scalar_list:
  "(sl \<noteq> [] \<and> TypeOf_Kind (hd sl) = Some String \<longrightarrow>
      stateparser_switch lib k (JArr sl) d =
        Inr (indent d @ ToSnakeCase lib k @ '' = ['' @ join '', '' (map (Sprintf_q lib) sl) @ '']'' @ [CHR 0x0A])) \<and>
   (sl \<noteq> [] \<and> (TypeOf_Kind (hd sl) = Some Float64 \<or> TypeOf_Kind (hd sl) = Some Bool) \<longrightarrow>
      stateparser_switch lib k (JArr sl) d =
        Inr (indent d @ ToSnakeCase lib k @ '' = ['' @ join '', '' (map (Sprintf_0f lib) sl) @ '']'' @ [CHR 0x0A])) \<and>
   (strs \<noteq> [] \<longrightarrow>
      stateparser_switch lib k (JArr (map JStr strs)) d =
        Inr (indent d @ ToSnakeCase lib k @ '' = ['' @ join '', '' (map (Quote lib) strs) @ '']'' @ [CHR 0x0A])) \<and>
   (list_all is_ascii s \<longrightarrow>
      Quote lib s = [CHR 0x22] @ concat (map quote_byte s) @ [CHR 0x22] \<and>
      CHR 0x0A \<notin> set (Quote lib s))"
proof -
  have q: "Quote lib s = [CHR 0x22] @ concat (map quote_byte s) @ [CHR 0x22] \<and>
      CHR 0x0A \<notin> set (Quote lib s)" if "list_all is_ascii s"
    using that Quote_ascii_one_line[OF that, of lib] by (simp add: Quote_def)
  from stateparser_string_list[of sl lib k d] stateparser_number_list[of sl lib k d]
    stateparser_list_of_strings[of strs lib k d] q
  show ?thesis by blast
qed

text \<open>
  Lists that the verb chosen from the first element does not fit, in package
  \<^verbatim>\<open>stateparser\<close>: a string after a number is printed by \<^verbatim>\<open>%0.f\<close> as Go's
  marker for a wrong verb, without quotes and without its text, and so is every element
  of a list of booleans.  A list of numbers is written as it should be.
\<close>

lemma stateparser_misfit_lists:
  "stateparser_switch example_lib ''n'' (JArr [JNum 1, JStr ''a'']) 1
     = Inr ([CHR 0x09] @ ''n = [1, %!f(string=)]'' @ [CHR 0x0A]) \<and>
   stateparser_switch example_lib ''flags'' (JArr [JBool True, JBool False]) 1
     = Inr ([CHR 0x09] @ ''flags = [%!f(bool=true), %!f(bool=false)]'' @ [CHR 0x0A]) \<and>
   stateparser_switch example_lib ''ids'' (JArr [JNum 1, JNum 2]) 1
     = Inr ([CHR 0x09] @ ''ids = [1, 2]'' @ [CHR 0x0A])"
  by (simp add: lib_eval)

text \<open>
  \<^verbatim>\<open>convertToHCLLine\<close> of package \<^verbatim>\<open>tfimport\<close> formats every element of a list of
  scalars with \<^verbatim>\<open>%q\<close>, numbers included.
\<close>

lemma tfimport_number_list:
  "tfimport_switch example_lib ''ids'' (JArr [JNum 1, JNum 2]) 1
     = Inr ([CHR 0x09] @ ''ids = [%!q(float64=1),%!q(float64=2)]'' @ [CHR 0x0A])"
  by (simp add: lib_eval)

text \<open>
  Claim C5 fails on the code of package \<^verbatim>\<open>tfimport\<close>.  Its \<^verbatim>\<open>convertToHCLLine\<close>
  writes a comma without a space between the elements of a list of strings (line 242);
  the function of package \<^verbatim>\<open>stateparser\<close> writes a comma and a space (lines 349
  and 358), as the claim says.
\<close>

theorem string_list_bare_comma_in_tfimport:
  "tfimport_convertToHCLLine example_lib (JObj [(''roles'', JArr [JStr ''a'', JStr ''b''])]) 1
     = Inr ([CHR 0x09] @ ''roles = ['' @ [CHR 0x22] @ ''a'' @ [CHR 0x22] @ '','' @
            [CHR 0x22] @ ''b'' @ [CHR 0x22] @ '']'' @ [CHR 0x0A]) \<and>
   stateparser_convertToHCLLine example_lib (JObj [(''roles'', JArr [JStr ''a'', JStr ''b''])]) 1
     = Inr ([CHR 0x09] @ ''roles = ['' @ [CHR 0x22] @ ''a'' @ [CHR 0x22] @ '', '' @
            [CHR 0x22] @ ''b'' @ [CHR 0x22] @ '']'' @ [CHR 0x0A])"
  by (simp add: lib_eval)

lemma stateparser_switch_blocks:
  "TypeOf_Kind x = Some Slice \<or> TypeOf_Kind x = Some Map \<Longrightarrow>
   stateparser_switch lib k (JArr (x # xs)) d = stateparser_blocks lib k (x # xs) d"
  by auto

lemma tfimport_switch_blocks:
  "TypeOf_Kind x = Some Slice \<or> TypeOf_Kind x = Some Map \<Longrightarrow>
   tfimport_switch lib k (JArr (x # xs)) d = tfimport_blocks lib k (x # xs) d"
  by auto

text \<open>
  Claim C6.  In both serializers, a key whose value is a non-empty list that starts with
  a list or a map is written as one nested block per element, in order: the header line
  \<open>key {\<close> (after an empty line, in lower case), the serialization of the element
  one level deeper, and the closing brace; no array literal is written.  \<open>bodies\<close>
  are the serializations of the elements.
\<close>

theorem composite_list_blocks:
  "sl \<noteq> [] \<and> (TypeOf_Kind (hd sl) = Some Slice \<or> TypeOf_Kind (hd sl) = Some Map) \<longrightarrow>
   (list_all2 (\<lambda>x body. stateparser_convertToHCLLine lib x (d + 1) = Inr body) sl bodies \<longrightarrow>
      stateparser_switch lib k (JArr sl) d = Inr (concat (map (block_of lib k d) bodies))) \<and>
   (list_all2 (\<lambda>x body. tfimport_convertToHCLLine lib x (d + 1) = Inr body) sl bodies' \<longrightarrow>
      tfimport_switch lib k (JArr sl) d = Inr (concat (map (block_of lib k d) bodies')))"
proof (intro impI conjI)
  assume h: "sl \<noteq> [] \<and> (TypeOf_Kind (hd sl) = Some Slice \<or> TypeOf_Kind (hd sl) = Some Map)"
  then obtain x xs where sl: "sl = x # xs" by (cases sl) auto
  with h have k: "TypeOf_Kind x = Some Slice \<or> TypeOf_Kind x = Some Map" by simp
  {
    assume "list_all2 (\<lambda>x body. stateparser_convertToHCLLine lib x (d + 1) = Inr body) sl bodies"
    then show "stateparser_switch lib k (JArr sl) d = Inr (concat (map (block_of lib k d) bodies))"
      using stateparser_blocks_bodies[of lib d sl bodies k] stateparser_switch_blocks[OF k, of lib k xs d]
      by (simp only: sl)
  }
  {
    assume "list_all2 (\<lambda>x body. tfimport_convertToHCLLine lib x (d + 1) = Inr body) sl bodies'"
    then show "tfimport_switch lib k (JArr sl) d = Inr (concat (map (block_of lib k d) bodies'))"
      using tfimport_blocks_bodies[of lib d sl bodies' k] tfimport_switch_blocks[OF k, of lib k xs d]
      by (simp only: sl)
  }
qed

text \<open>The theorem of C6 at a list of two maps, and the text of the first block.\<close>

theorem composite_list_blocks_witness:
  "stateparser_switch example_lib ''rules'' (JArr [JObj [(''op'', JStr ''eq'')], JObj [(''op'', JStr ''ne'')]]) 1
     = Inr (block_of example_lib ''rules'' 1 ([CHR 0x09, CHR 0x09] @ ''op = '' @ [CHR 0x22] @ ''eq'' @ [CHR 0x22, CHR 0x0A]) @
            block_of example_lib ''rules'' 1 ([CHR 0x09, CHR 0x09] @ ''op = '' @ [CHR 0x22] @ ''ne'' @ [CHR 0x22, CHR 0x0A])) \<and>
   tfimport_switch example_lib ''rules'' (JArr [JObj [(''op'', JStr ''eq'')], JObj [(''op'', JStr ''ne'')]]) 1
     = Inr (block_of example_lib ''rules'' 1 ([CHR 0x09, CHR 0x09] @ ''op = '' @ [CHR 0x22] @ ''eq'' @ [CHR 0x22, CHR 0x0A]) @
            block_of example_lib ''rules'' 1 ([CHR 0x09, CHR 0x09] @ ''op = '' @ [CHR 0x22] @ ''ne'' @ [CHR 0x22, CHR 0x0A])) \<and>
   block_of example_lib ''rules'' 1 ([CHR 0x09, CHR 0x09] @ ''op = '' @ [CHR 0x22] @ ''eq'' @ [CHR 0x22, CHR 0x0A])
     = [CHR 0x0A, CHR 0x09] @ ''rules {'' @ [CHR 0x0A, CHR 0x09, CHR 0x09] @ ''op = '' @ [CHR 0x22] @ ''eq'' @
       [CHR 0x22, CHR 0x0A, CHR 0x09] @ ''}'' @ [CHR 0x0A]"
proof -
  let ?sl = "[JObj [(''op'', JStr ''eq'')], JObj [(''op'', JStr ''ne'')]] :: nat json list"
  let ?bodies = "[[CHR 0x09, CHR 0x09] @ ''op = '' @ [CHR 0x22] @ ''eq'' @ [CHR 0x22, CHR 0x0A],
                  [CHR 0x09, CHR 0x09] @ ''op = '' @ [CHR 0x22] @ ''ne'' @ [CHR 0x22, CHR 0x0A]]"
  have s: "list_all2 (\<lambda>x body. stateparser_convertToHCLLine example_lib x (1 + 1) = Inr body) ?sl ?bodies"
    by (simp add: example_lib_def indent_def Quote_def is_ascii_def quote_byte_def)
  have t: "list_all2 (\<lambda>x body. tfimport_convertToHCLLine example_lib x (1 + 1) = Inr body) ?sl ?bodies"
    by (simp add: example_lib_def indent_def Quote_def is_ascii_def quote_byte_def)
  have b: "block_of example_lib ''rules'' 1 ([CHR 0x09, CHR 0x09] @ ''op = '' @ [CHR 0x22] @ ''eq'' @ [CHR 0x22, CHR 0x0A])
     = [CHR 0x0A, CHR 0x09] @ ''rules {'' @ [CHR 0x0A, CHR 0x09, CHR 0x09] @ ''op = '' @ [CHR 0x22] @ ''eq'' @
       [CHR 0x22, CHR 0x0A, CHR 0x09] @ ''}'' @ [CHR 0x0A]"
    by (simp add: lib_eval)
  from composite_list_blocks[of ?sl example_lib 1 ?bodies "''rules''" ?bodies] s t
  have "stateparser_switch example_lib ''rules'' (JArr ?sl) 1 = Inr (concat (map (block_of example_lib ''rules'' 1) ?bodies))"
    and "tfimport_switch example_lib ''rules'' (JArr ?sl) 1 = Inr (concat (map (block_of example_lib ''rules'' 1) ?bodies))"
    by simp_all
  with b show ?thesis by simp
qed

lemma stateparser_non_map_empty:
  "TypeOf_Kind y \<noteq> Some Map \<Longrightarrow> stateparser_convertToHCLLine lib y d = Inr []"
  by (cases y) simp_all

lemma tfimport_non_map_empty:
  "TypeOf_Kind y \<noteq> Some Map \<Longrightarrow> tfimport_convertToHCLLine lib y d = Inr []"
  by (cases y) simp_all

lemma tfimport_scalar_list:
  "TypeOf_Kind x = Some String \<or> TypeOf_Kind x = Some Float64 \<or> TypeOf_Kind x = Some Bool \<Longrightarrow>
   tfimport_switch lib k (JArr (x # xs)) d =
     Inr (indent d @ ToSnakeCase lib k @ '' = ['' @ join '','' (map (Sprintf_q lib) (x # xs)) @ '']'' @ [CHR 0x0A])"
  by auto

text \<open>
  Claim C10 (as amended).  For a non-empty list whose first element \<open>x\<close> is not
  \<^verbatim>\<open>nil\<close>, the kind of \<open>x\<close> alone selects the rendering, in both serializers: when
  \<open>x\<close> is a list or a map the whole list goes through the loop of nested blocks,
  otherwise the list is written as one array literal.  On the block path an element
  \<open>y\<close> that is not a map (a scalar, \<^verbatim>\<open>nil\<close> or a list) has an empty serialization
  and contributes an empty block: the header line and the closing brace with nothing
  between them.
\<close>

theorem first_element_decides:
  "(TypeOf_Kind x = Some Slice \<or> TypeOf_Kind x = Some Map \<longrightarrow>
      stateparser_switch lib k (JArr (x # xs)) d = stateparser_blocks lib k (x # xs) d \<and>
      tfimport_switch lib k (JArr (x # xs)) d = tfimport_blocks lib k (x # xs) d) \<and>
   (TypeOf_Kind x = Some String \<longrightarrow>
      stateparser_switch lib k (JArr (x # xs)) d =
        Inr (indent d @ ToSnakeCase lib k @ '' = ['' @ join '', '' (map (Sprintf_q lib) (x # xs)) @ '']'' @ [CHR 0x0A])) \<and>
   (TypeOf_Kind x = Some Float64 \<or> TypeOf_Kind x = Some Bool \<longrightarrow>
      stateparser_switch lib k (JArr (x # xs)) d =
        Inr (indent d @ ToSnakeCase lib k @ '' = ['' @ join '', '' (map (Sprintf_0f lib) (x # xs)) @ '']'' @ [CHR 0x0A])) \<and>
   (TypeOf_Kind x = Some String \<or> TypeOf_Kind x = Some Float64 \<or> TypeOf_Kind x = Some Bool \<longrightarrow>
      tfimport_switch lib k (JArr (x # xs)) d =
        Inr (indent d @ ToSnakeCase lib k @ '' = ['' @ join '','' (map (Sprintf_q lib) (x # xs)) @ '']'' @ [CHR 0x0A])) \<and>
   (TypeOf_Kind y \<noteq> Some Map \<longrightarrow>
      stateparser_blocks lib k (y # ys) d =
        (case stateparser_blocks lib k ys d of
           Inl e \<Rightarrow> Inl e
         | Inr rest \<Rightarrow> Inr (block_of lib k d [] @ rest)) \<and>
      tfimport_blocks lib k (y # ys) d =
        (case tfimport_blocks lib k ys d of
           Inl e \<Rightarrow> Inl e
         | Inr rest \<Rightarrow> Inr (block_of lib k d [] @ rest)))"
proof -
  have a: "stateparser_switch lib k (JArr (x # xs)) d =
        Inr (indent d @ ToSnakeCase lib k @ '' = ['' @ join '', '' (map (Sprintf_q lib) (x # xs)) @ '']'' @ [CHR 0x0A])"
    if "TypeOf_Kind x = Some String"
    using that stateparser_string_list[of "x # xs" lib k d] by simp
  have b: "stateparser_switch lib k (JArr (x # xs)) d =
        Inr (indent d @ ToSnakeCase lib k @ '' = ['' @ join '', '' (map (Sprintf_0f lib) (x # xs)) @ '']'' @ [CHR 0x0A])"
    if "TypeOf_Kind x = Some Float64 \<or> TypeOf_Kind x = Some Bool"
    using that stateparser_number_list[of "x # xs" lib k d] by simp
  have c: "stateparser_blocks lib k (y # ys) d =
        (case stateparser_blocks lib k ys d of
           Inl e \<Rightarrow> Inl e
         | Inr rest \<Rightarrow> Inr (block_of lib k d [] @ rest))" if "TypeOf_Kind y \<noteq> Some Map"
    using stateparser_non_map_empty[OF that, of lib "d + 1"]
    by (simp add: block_of_def split: sum.splits)
  have c': "tfimport_blocks lib k (y # ys) d =
        (case tfimport_blocks lib k ys d of
           Inl e \<Rightarrow> Inl e
         | Inr rest \<Rightarrow> Inr (block_of lib k d [] @ rest))" if "TypeOf_Kind y \<noteq> Some Map"
    using tfimport_non_map_empty[OF that, of lib "d + 1"]
    by (simp add: block_of_def split: sum.splits)
  from a b c c' stateparser_switch_blocks[of x lib k xs d] tfimport_switch_blocks[of x lib k xs d]
    tfimport_scalar_list[of x lib k xs d]
  show ?thesis by blast
qed

text \<open>The theorem of C10 at a list made of a map and a string.\<close>

theorem first_element_decides_witness:
  "stateparser_switch example_lib ''rules'' (JArr [JObj [(''op'', JStr ''eq'')], JStr ''s'']) 1
     = stateparser_blocks example_lib ''rules'' [JObj [(''op'', JStr ''eq'')], JStr ''s''] 1 \<and>
   stateparser_blocks example_lib ''rules'' [JStr ''s''] 1 = Inr (block_of example_lib ''rules'' 1 []) \<and>
   tfimport_blocks example_lib ''rules'' [JStr ''s''] 1 = Inr (block_of example_lib ''rules'' 1 [])"
  using first_element_decides[of "JObj [(''op'', JStr ''eq'')]" example_lib "''rules''" "[JStr ''s'']" 1
      "JStr ''s''" "[]"]
  by simp

text \<open>
  Claim C10 as stated fails in its last part: a scalar after a map in a list is not
  without output.  The list of a map and a string is written as the block of the map
  followed by an empty block for the string, three lines more than the list of the map
  alone.
\<close>

theorem scalar_in_block_list_counterexample:
  "stateparser_switch example_lib ''rules'' (JArr [JObj [(''op'', JStr ''eq'')], JStr ''s'']) 1
     = Inr ([CHR 0x0A, CHR 0x09] @ ''rules {'' @ [CHR 0x0A, CHR 0x09, CHR 0x09] @ ''op = '' @ [CHR 0x22] @ ''eq'' @
            [CHR 0x22, CHR 0x0A, CHR 0x09] @ ''}'' @ [CHR 0x0A] @
            [CHR 0x0A, CHR 0x09] @ ''rules {'' @ [CHR 0x0A, CHR 0x09] @ ''}'' @ [CHR 0x0A]) \<and>
   stateparser_switch example_lib ''rules'' (JArr [JObj [(''op'', JStr ''eq'')]]) 1
     = Inr ([CHR 0x0A, CHR 0x09] @ ''rules {'' @ [CHR 0x0A, CHR 0x09, CHR 0x09] @ ''op = '' @ [CHR 0x22] @ ''eq'' @
            [CHR 0x22, CHR 0x0A, CHR 0x09] @ ''}'' @ [CHR 0x0A]) \<and>
   tfimport_switch example_lib ''rules'' (JArr [JObj [(''op'', JStr ''eq'')], JStr ''s'']) 1
     = Inr ([CHR 0x0A, CHR 0x09] @ ''rules {'' @ [CHR 0x0A, CHR 0x09, CHR 0x09] @ ''op = '' @ [CHR 0x22] @ ''eq'' @
            [CHR 0x22, CHR 0x0A, CHR 0x09] @ ''}'' @ [CHR 0x0A] @
            [CHR 0x0A, CHR 0x09] @ ''rules {'' @ [CHR 0x0A, CHR 0x09] @ ''}'' @ [CHR 0x0A])"
  by (simp add: lib_eval)

text \<open>
  A list whose first element is \<^verbatim>\<open>nil\<close> is rendered in neither way: both
  serializers panic on \<^verbatim>\<open>reflect.TypeOf(sl[0]).Kind()\<close>.
\<close>

lemma nil_first_element_panics:
  "stateparser_switch lib k (JArr (JNull # xs)) d = Inl Panic \<and>
   tfimport_switch lib k (JArr (JNull # xs)) d = Inl Panic"
  by simp

section \<open>Properties of the conversion of a state\<close>

lemma stateparser_resources_append:
  "stateparser_resources lib H (xs @ ys) =
     (case stateparser_resources lib H xs of
        Inl e \<Rightarrow> Inl e
      | Inr a \<Rightarrow> (case stateparser_resources lib H ys of Inl e \<Rightarrow> Inl e | Inr b \<Rightarrow> Inr (a @ b)))"
  by (induction xs) (simp_all split: sum.splits)

lemma stateparser_resources_split:
  assumes "stateparser_resources lib H (rs1 @ r # rs2) = Inr out"
  shows "\<exists>pre blocks post.
           stateparser_resources lib H rs1 = Inr pre \<and>
           stateparser_instances lib H r (Instances r) = Inr blocks \<and>
           stateparser_resources lib H rs2 = Inr post \<and>
           out = pre @ blocks @ Content r @ post"
  using assms by (auto simp: stateparser_resources_append split: sum.splits)

lemma tfimport_resources_split:
  assumes "tfimport_resources lib sc known (rs1 @ r # rs2) = Inr out"
  shows "\<exists>pre hdr blocks post.
           tfimport_resources lib sc known rs1 = Inr pre \<and>
           (hdr = [] \<or> hdr = provider_block (providerDefinition_of r)) \<and>
           tfimport_instances lib sc r (providerDefinition_of r) (Instances r) = Inr blocks \<and>
           out = pre @ hdr @ blocks @ Content r @ post"
  using assms
proof (induction rs1 arbitrary: known out)
  case Nil
  then show ?case
    by (auto simp: Let_def providerDefinition_of_def split: sum.splits if_splits)
next
  case (Cons a rs1)
  from Cons.prems obtain ab rest where
    ab: "tfimport_instances lib sc a (providerDefinition_of a) (Instances a) = Inr ab"
    and rest: "tfimport_resources lib sc (providerDefinition_of a # known) (rs1 @ r # rs2) = Inr rest"
    and out: "out = (if providerDefinition_of a \<in> set known then [] else provider_block (providerDefinition_of a))
                @ ab @ Content a @ rest"
    by (auto simp: Let_def providerDefinition_of_def split: sum.splits)
  from Cons.IH[OF rest] obtain pre hdr blocks post where
    p: "tfimport_resources lib sc (providerDefinition_of a # known) rs1 = Inr pre"
    and h: "hdr = [] \<or> hdr = provider_block (providerDefinition_of r)"
    and b: "tfimport_instances lib sc r (providerDefinition_of r) (Instances r) = Inr blocks"
    and r: "rest = pre @ hdr @ blocks @ Content r @ post"
    by blast
  let ?pre = "(if providerDefinition_of a \<in> set known then [] else provider_block (providerDefinition_of a))
                @ ab @ Content a @ pre"
  have "tfimport_resources lib sc known (a # rs1) = Inr ?pre"
    using ab p by (simp add: Let_def providerDefinition_of_def)
  moreover have "out = ?pre @ hdr @ blocks @ Content r @ post" using out r by simp
  ultimately show ?case using h b by blast
qed

text \<open>
  Claim C8.  In both packages, whenever the conversion of a state returns a text, the
  text is, for every resource \<open>r\<close> of the state: the text for the resources before
  \<open>r\<close>, then (in package \<^verbatim>\<open>tfimport\<close>) the provider block when the provider is seen
  for the first time, then the generated blocks of the instances of \<open>r\<close>, then the bytes
  of \<open>Content r\<close> unchanged, then the text for the resources after \<open>r\<close>.
\<close>

theorem content_passthrough:
  "(Resources state = rs1 @ r # rs2 \<and> ConvertTFStateToHCL lib HCLShape state = Inr out \<longrightarrow>
      (\<exists>pre blocks post.
         ConvertTFStateToHCL lib HCLShape (state\<lparr>Resources := rs1\<rparr>) = Inr pre \<and>
         stateparser_instances lib HCLShape r (Instances r) = Inr blocks \<and>
         stateparser_resources lib HCLShape rs2 = Inr post \<and>
         out = pre @ blocks @ Content r @ post)) \<and>
   (Resources state = rs1 @ r # rs2 \<and> convertTFStateToHCL lib sculpt state = Inr out' \<longrightarrow>
      (\<exists>pre hdr blocks post.
         convertTFStateToHCL lib sculpt (state\<lparr>Resources := rs1\<rparr>) = Inr pre \<and>
         (hdr = [] \<or> hdr = provider_block (providerDefinition_of r)) \<and>
         tfimport_instances lib sculpt r (providerDefinition_of r) (Instances r) = Inr blocks \<and>
         out' = pre @ hdr @ blocks @ Content r @ post))"
proof (intro conjI impI)
  assume h: "Resources state = rs1 @ r # rs2 \<and> ConvertTFStateToHCL lib HCLShape state = Inr out"
  then obtain body where b: "stateparser_resources lib HCLShape (rs1 @ r # rs2) = Inr body"
    and o: "out = stateparser_header @ body"
    by (auto simp: ConvertTFStateToHCL_def split: sum.splits)
  from stateparser_resources_split[OF b] obtain pre blocks post where
    "stateparser_resources lib HCLShape rs1 = Inr pre"
    "stateparser_instances lib HCLShape r (Instances r) = Inr blocks"
    "stateparser_resources lib HCLShape rs2 = Inr post"
    "body = pre @ blocks @ Content r @ post" by blast
  then show "\<exists>pre blocks post.
         ConvertTFStateToHCL lib HCLShape (state\<lparr>Resources := rs1\<rparr>) = Inr pre \<and>
         stateparser_instances lib HCLShape r (Instances r) = Inr blocks \<and>
         stateparser_resources lib HCLShape rs2 = Inr post \<and>
         out = pre @ blocks @ Content r @ post"
    using o by (simp add: ConvertTFStateToHCL_def)
next
  assume h: "Resources state = rs1 @ r # rs2 \<and> convertTFStateToHCL lib sculpt state = Inr out'"
  then have "tfimport_resources lib sculpt [] (rs1 @ r # rs2) = Inr out'"
    by (auto simp: convertTFStateToHCL_def)
  from tfimport_resources_split[OF this]
  show "\<exists>pre hdr blocks post.
         convertTFStateToHCL lib sculpt (state\<lparr>Resources := rs1\<rparr>) = Inr pre \<and>
         (hdr = [] \<or> hdr = provider_block (providerDefinition_of r)) \<and>
         tfimport_instances lib sculpt r (providerDefinition_of r) (Instances r) = Inr blocks \<and>
         out' = pre @ hdr @ blocks @ Content r @ post"
    by (simp add: convertTFStateToHCL_def)
qed

lemma note_state_stateparser:
  "\<exists>out. ConvertTFStateToHCL example_lib plain_shape note_state = Inr out"
  by (simp add: ConvertTFStateToHCL_def note_state_def note_resource_def plain_shape_def)

lemma note_state_tfimport:
  "\<exists>out. convertTFStateToHCL example_lib plain_sculpt note_state = Inr out"
  by (simp add: convertTFStateToHCL_def note_state_def note_resource_def plain_sculpt_def Let_def)

text \<open>The theorem of C8 at a state of one resource with a trailing comment line.\<close>

theorem content_passthrough_witness:
  "Content note_resource = ''# kept as it is'' @ [CHR 0x0A] \<and>
   (\<exists>pre blocks post.
      stateparser_instances example_lib plain_shape note_resource (Instances note_resource) = Inr blocks \<and>
      ConvertTFStateToHCL example_lib plain_shape note_state
        = Inr (pre @ blocks @ Content note_resource @ post)) \<and>
   (\<exists>pre blocks post.
      tfimport_instances example_lib plain_sculpt note_resource (providerDefinition_of note_resource)
        (Instances note_resource) = Inr blocks \<and>
      convertTFStateToHCL example_lib plain_sculpt note_state
        = Inr (pre @ blocks @ Content note_resource @ post))"
proof -
  have r: "Resources note_state = [] @ note_resource # []" by (simp add: note_state_def)
  have c: "Content note_resource = ''# kept as it is'' @ [CHR 0x0A]" by (simp add: note_resource_def)
  from note_state_stateparser obtain out where
    o: "ConvertTFStateToHCL example_lib plain_shape note_state = Inr out" by blast
  from note_state_tfimport obtain out' where
    o': "convertTFStateToHCL example_lib plain_sculpt note_state = Inr out'" by blast
  note t = content_passthrough[of note_state "[]" note_resource "[]" example_lib plain_shape out
      plain_sculpt out']
  from t r o obtain pre blocks post where
    a1: "stateparser_instances example_lib plain_shape note_resource (Instances note_resource) = Inr blocks"
    and a2: "out = pre @ blocks @ Content note_resource @ post"
    by blast
  from t r o' obtain pre' hdr blocks' post' where
    b1: "tfimport_instances example_lib plain_sculpt note_resource (providerDefinition_of note_resource)
           (Instances note_resource) = Inr blocks'"
    and b2: "out' = pre' @ hdr @ blocks' @ Content note_resource @ post'"
    by blast
  have b3: "out' = (pre' @ hdr) @ blocks' @ Content note_resource @ post'" using b2 by simp
  show ?thesis using c o a1 a2 o' b1 b3 by blast
qed

end
